theory Spec2Isabelle
  imports Complex_Main "HOL-Library.Word" "HOL-Library.Sublist" "HOL-Library.AList"
begin

section \<open>Go values used by the receiver\<close>

text \<open>
  \<^verbatim>\<open>int64\<close>, \<^verbatim>\<open>int\<close> (on the 64-bit platforms the collector is built for) and
  \<^verbatim>\<open>time.Duration\<close> (an \<^verbatim>\<open>int64\<close> count of nanoseconds) are 64-bit two's-complement
  words, read with \<open>sint\<close>.
\<close>

type_synonym int64 = "64 word"
type_synonym duration = "64 word"

definition Second :: duration where
  "Second = 1000000000"

definition Minute :: duration where
  "Minute = 60 * Second"

subsection \<open>\<^verbatim>\<open>fmt\<close> verbs\<close>

definition digit_char :: "nat \<Rightarrow> char" where
  "digit_char d = ''0123456789'' ! d"

fun digits :: "nat \<Rightarrow> string" where
  "digits n = (if n < 10 then [digit_char n] else digits (n div 10) @ [digit_char (n mod 10)])"

declare digits.simps [simp del]

text \<open>The verb \<^verbatim>\<open>%d\<close>: decimal digits, a minus sign for negative numbers.\<close>

definition fmt_d :: "int \<Rightarrow> string" where
  "fmt_d i = (if i < 0 then ''-'' @ digits (nat (- i)) else digits (nat i))"

section \<open>The store of Go maps and slices\<close>

text \<open>
  A Go map or slice is a reference. The query bodies of the configuration are values of
  type \<^verbatim>\<open>map[string]interface{}\<close> that several calls share, so they live in an explicit
  store: an address is an index into the list of allocated objects, and allocation appends.
\<close>

type_synonym addr = nat

datatype gval =
    GNil
  | GBool bool
  | GNum real
  | GStr string
  | GMap addr
  | GSlice addr

datatype gobj =
    MapObj "(string \<times> gval) list"
  | SliceObj "gval list"

type_synonym heap = "gobj list"

definition deref :: "heap \<Rightarrow> addr \<Rightarrow> gobj option" where
  "deref h a = (if a < length h then Some (h ! a) else None)"

definition alloc :: "gobj \<Rightarrow> heap \<Rightarrow> addr \<times> heap" where
  "alloc ob h = (length h, h @ [ob])"

text \<open>\<^verbatim>\<open>len(m)\<close> of a map value; the length of a nil map is 0.\<close>

definition map_len :: "heap \<Rightarrow> gval \<Rightarrow> nat" where
  "map_len h v =
     (case v of
        GMap a \<Rightarrow> (case deref h a of Some (MapObj m) \<Rightarrow> length m | _ \<Rightarrow> 0)
      | _ \<Rightarrow> 0)"

section \<open>Configuration\<close>

record ClientConfig =
  Endpoint :: string
  Timeout :: duration

record QueryConfig =
  Name :: string
  Description :: string
  Query :: gval
  MetricName :: string
  Labels :: "(string \<times> string) list"

record Config = ClientConfig +
  CollectionInterval :: duration
  InitialDelay :: duration
  Mode :: string
  Username :: string
  Password :: string
  ProxyEndpoint :: string
  Queries :: "QueryConfig list"
  IndexPattern :: string
  TimeField :: string
  LookbackPeriod :: duration

text \<open>
  The loop of \<^verbatim>\<open>Validate\<close> over \<^verbatim>\<open>cfg.Queries\<close>, with the index \<open>i\<close> of the range
  clause. An error is its message.
\<close>

fun validate_queries :: "heap \<Rightarrow> nat \<Rightarrow> QueryConfig list \<Rightarrow> string option" where
  "validate_queries h i [] = None"
| "validate_queries h i (query # rest) =
     (if Name query = ''''
      then Some (''query['' @ fmt_d (int i) @ '']: name must be specified'')
      else if Query query = GNil \<or> map_len h (Query query) = 0
      then Some (''query['' @ fmt_d (int i) @ ''] ('' @ Name query
                   @ ''): query body must be specified'')
      else validate_queries h (Suc i) rest)"

text \<open>
  \<^verbatim>\<open>Validate\<close> has a pointer receiver: the model returns the error (\<open>None\<close> for
  \<^verbatim>\<open>nil\<close>) together with the configuration as the call leaves it.
\<close>

definition Validate :: "heap \<Rightarrow> Config \<Rightarrow> string option \<times> Config" where
  "Validate h cfg =
     (if Mode cfg = '''' then (Some ''mode must be specified (direct or proxy)'', cfg)
      else if Mode cfg \<noteq> ''direct'' \<and> Mode cfg \<noteq> ''proxy''
      then (Some (''invalid mode '' @ [CHR 0x27] @ Mode cfg @ [CHR 0x27]
                    @ '': must be '' @ [CHR 0x27] @ ''direct'' @ [CHR 0x27]
                    @ '' or '' @ [CHR 0x27] @ ''proxy'' @ [CHR 0x27]), cfg)
      else if Mode cfg = ''direct'' \<and> Endpoint cfg = ''''
      then (Some ''endpoint must be specified in direct mode'', cfg)
      else if Mode cfg = ''proxy'' \<and> ProxyEndpoint cfg = ''''
      then (Some ''proxy_endpoint must be specified in proxy mode'', cfg)
      else if length (Queries cfg) = 0
      then (Some ''at least one query must be configured'', cfg)
      else case validate_queries h 0 (Queries cfg) of
        Some err \<Rightarrow> (Some err, cfg)
      | None \<Rightarrow>
          if IndexPattern cfg = '''' then (Some ''index_pattern must be specified'', cfg)
          else
            let cfg1 = (if TimeField cfg = '''' then cfg\<lparr>TimeField := ''@timestamp''\<rparr> else cfg);
                cfg2 = (if LookbackPeriod cfg1 = 0
                        then cfg1\<lparr>LookbackPeriod := 5 * Minute\<rparr> else cfg1)
            in (None, cfg2))"

text \<open>\<^verbatim>\<open>GetEndpoint\<close> and \<^verbatim>\<open>UsesBasicAuth\<close>.\<close>

definition GetEndpoint :: "Config \<Rightarrow> string" where
  "GetEndpoint cfg = (if Mode cfg = ''proxy'' then ProxyEndpoint cfg else Endpoint cfg)"

definition UsesBasicAuth :: "Config \<Rightarrow> bool" where
  "UsesBasicAuth cfg \<longleftrightarrow> Mode cfg = ''direct'' \<and> Username cfg \<noteq> '''' \<and> Password cfg \<noteq> ''''"

section \<open>Floating-point values\<close>

text \<open>
  A \<^verbatim>\<open>float64\<close> that comes out of a JSON document is finite; it is modelled by the real
  number it denotes (the sign of a zero is not represented). The conversion
  \<^verbatim>\<open>float64(n)\<close> of an integer rounds to the nearest value with a 53-bit significand,
  ties to even; no 64-bit integer is out of range.
\<close>

fun bit_length :: "nat \<Rightarrow> nat" where
  "bit_length n = (if n = 0 then 0 else Suc (bit_length (n div 2)))"

declare bit_length.simps [simp del]

definition float64_of_int :: "int \<Rightarrow> real" where
  "float64_of_int n =
     (let a = nat \<bar>n\<bar>; e = bit_length a - 53
      in if e = 0 then of_int n
         else
           let q = a div 2 ^ e; r = a mod 2 ^ e; half = 2 ^ (e - 1);
               q' = (if half < r \<or> (r = half \<and> odd q) then q + 1 else q)
           in of_int (sgn n) * of_nat (q' * 2 ^ e))"

text \<open>
  The verb \<^verbatim>\<open>%.0f\<close>: the sign, then the magnitude rounded to an integer (ties to
  even) in decimal digits, never an exponent.
\<close>

definition round_half_even :: "real \<Rightarrow> int" where
  "round_half_even x =
     (let f = \<lfloor>x\<rfloor>; d = x - of_int f
      in if d < 1 / 2 then f
         else if 1 / 2 < d then f + 1
         else if even f then f else f + 1)"

definition fmt_f0 :: "real \<Rightarrow> string" where
  "fmt_f0 x =
     (if x < 0 then ''-'' @ digits (nat (round_half_even (- x)))
      else digits (nat (round_half_even x)))"

section \<open>Search responses\<close>

text \<open>
  The aggregations of a response are decoded by \<^verbatim>\<open>encoding/json\<close> into
  \<^verbatim>\<open>interface{}\<close> values: a fresh tree that nothing else refers to. An object keeps
  its members as a list of pairs; the order of the list stands for the order in which a
  \<^verbatim>\<open>range\<close> over the Go map happens to visit them, and \<open>map_of\<close> is the index
  expression \<^verbatim>\<open>m[k]\<close>.
\<close>

datatype json =
    JNull
  | JBool bool
  | JNum real
  | JStr string
  | JArr "json list"
  | JObj "(string \<times> json) list"

record ShardInfo =
  Total :: int64
  Successful :: int64
  Skipped :: int64
  Failed :: int64

record HitsTotal =
  Value :: int64
  Relation :: string

record Hits =
  HTotal :: HitsTotal

record SearchResponse =
  Took :: int64
  TimedOut :: bool
  Shards :: ShardInfo
  Hits :: Hits
  Aggregations :: "(string \<times> json) list"

section \<open>Metrics\<close>

text \<open>
  One gauge metric with its single data point. The attributes are a \<^verbatim>\<open>pcommon.Map\<close>:
  a list of key-value pairs in which \<^verbatim>\<open>PutStr\<close> overwrites the value of a key that is
  present and appends otherwise.
\<close>

record metric =
  metric_name :: string
  metric_description :: string
  metric_unit :: string
  dp_timestamp :: nat
  dp_value :: real
  dp_attrs :: "(string \<times> string) list"

definition PutStr :: "string \<Rightarrow> string \<Rightarrow> (string \<times> string) list \<Rightarrow> (string \<times> string) list" where
  "PutStr k v attrs = AList.update k v attrs"

text \<open>The loop \<^verbatim>\<open>for k, v := range queryConfig.Labels { attrs.PutStr(k, v) }\<close>.\<close>

definition put_labels :: "(string \<times> string) list \<Rightarrow> (string \<times> string) list \<Rightarrow> (string \<times> string) list" where
  "put_labels labels attrs = fold (\<lambda>(k, v). PutStr k v) labels attrs"

text \<open>
  The functions that append to the scope's metric slice return the metrics they append,
  in order.
\<close>

definition recordGaugeMetric ::
  "string \<Rightarrow> string \<Rightarrow> string \<Rightarrow> real \<Rightarrow> QueryConfig \<Rightarrow> nat \<Rightarrow> metric" where
  "recordGaugeMetric name description unit val queryConfig timestamp =
     \<lparr>metric_name = name, metric_description = description, metric_unit = unit,
      dp_timestamp = timestamp, dp_value = val,
      dp_attrs =
        put_labels (Labels queryConfig)
          (let attrs = PutStr ''query.name'' (Name queryConfig) []
           in if Description queryConfig \<noteq> ''''
              then PutStr ''query.description'' (Description queryConfig) attrs
              else attrs)\<rparr>"

text \<open>The key of a bucket (the if-chain at the head of the loop body of \<^verbatim>\<open>processBuckets\<close>).\<close>

definition bucket_key :: "nat \<Rightarrow> (string \<times> json) list \<Rightarrow> string" where
  "bucket_key i bucketMap =
     (case map_of bucketMap ''key'' of
        Some (JStr keyVal) \<Rightarrow> keyVal
      | Some (JNum keyVal) \<Rightarrow> fmt_f0 keyVal
      | _ \<Rightarrow> ''bucket_'' @ fmt_d (int i))"

text \<open>The metric that \<^verbatim>\<open>processBuckets\<close> builds in place for the document count of a bucket.\<close>

definition bucket_doc_count_metric ::
  "string \<Rightarrow> string \<Rightarrow> string \<Rightarrow> real \<Rightarrow> QueryConfig \<Rightarrow> nat \<Rightarrow> metric" where
  "bucket_doc_count_metric baseMetricName aggName key docCount queryConfig timestamp =
     \<lparr>metric_name = baseMetricName @ ''.agg.'' @ aggName @ ''.bucket.doc_count'',
      metric_description = ''Bucket document count for '' @ aggName,
      metric_unit = ''documents'',
      dp_timestamp = timestamp, dp_value = docCount,
      dp_attrs =
        put_labels (Labels queryConfig)
          (PutStr ''aggregation'' aggName
            (PutStr ''bucket.key'' key
              (PutStr ''query.name'' (Name queryConfig) [])))\<rparr>"

text \<open>
  The walk. \<open>processNested\<close> is the loop over the members of a bucket at the end of the
  body of \<^verbatim>\<open>processBuckets\<close>; \<open>i\<close> is the index of the range clause, which also counts
  the elements that are not objects.
\<close>

function (sequential) processAggregation ::
    "string \<Rightarrow> string \<Rightarrow> json \<Rightarrow> QueryConfig \<Rightarrow> nat \<Rightarrow> metric list"
  and processBuckets ::
    "string \<Rightarrow> string \<Rightarrow> nat \<Rightarrow> json list \<Rightarrow> QueryConfig \<Rightarrow> nat \<Rightarrow> metric list"
  and processNested ::
    "string \<Rightarrow> (string \<times> json) list \<Rightarrow> QueryConfig \<Rightarrow> nat \<Rightarrow> metric list"
where
  "processAggregation baseMetricName aggName (JObj aggMap) queryConfig timestamp =
     (case map_of aggMap ''value'' of
        Some (JNum val) \<Rightarrow>
          [recordGaugeMetric (baseMetricName @ ''.agg.'' @ aggName)
             (''Aggregation result for '' @ aggName) '''' val queryConfig timestamp]
      | _ \<Rightarrow> [])
     @ (case map_of aggMap ''doc_count'' of
        Some (JNum docCount) \<Rightarrow>
          [recordGaugeMetric (baseMetricName @ ''.agg.'' @ aggName @ ''.doc_count'')
             (''Document count for '' @ aggName) ''documents'' docCount queryConfig timestamp]
      | _ \<Rightarrow> [])
     @ (case map_of aggMap ''buckets'' of
        Some (JArr buckets) \<Rightarrow>
          processBuckets baseMetricName aggName 0 buckets queryConfig timestamp
      | _ \<Rightarrow> [])"
| "processAggregation baseMetricName aggName aggValue queryConfig timestamp = []"
| "processBuckets baseMetricName aggName i [] queryConfig timestamp = []"
| "processBuckets baseMetricName aggName i (JObj bucketMap # rest) queryConfig timestamp =
     (let key = bucket_key i bucketMap
      in (case map_of bucketMap ''doc_count'' of
            Some (JNum docCount) \<Rightarrow>
              [bucket_doc_count_metric baseMetricName aggName key docCount queryConfig timestamp]
          | _ \<Rightarrow> [])
         @ processNested (baseMetricName @ ''.'' @ key) bucketMap queryConfig timestamp)
     @ processBuckets baseMetricName aggName (Suc i) rest queryConfig timestamp"
| "processBuckets baseMetricName aggName i (bucket # rest) queryConfig timestamp =
     processBuckets baseMetricName aggName (Suc i) rest queryConfig timestamp"
| "processNested nestedBaseMetric [] queryConfig timestamp = []"
| "processNested nestedBaseMetric ((nestedAggName, nestedAggValue) # members) queryConfig timestamp =
     (if nestedAggName \<noteq> ''key'' \<and> nestedAggName \<noteq> ''doc_count''
         \<and> nestedAggName \<noteq> ''key_as_string''
      then processAggregation nestedBaseMetric nestedAggName nestedAggValue queryConfig timestamp
      else [])
     @ processNested nestedBaseMetric members queryConfig timestamp"
  by pat_completeness auto

termination
proof (relation "measure (\<lambda>x. case x of
          Inl (b, n, v, q, t) \<Rightarrow> size v
        | Inr (Inl (b, n, i, bs, q, t)) \<Rightarrow> size_list size bs
        | Inr (Inr (b, m, q, t)) \<Rightarrow> size_list (size_prod (\<lambda>_. 0) size) m)")
  have lookup_size: "size v < Suc (size_list (size_prod (\<lambda>_. 0) size) m)"
    if "map_of m k = Some v" for m :: "(string \<times> json) list" and k v
    using that by (induction m) (auto split: if_splits)
  show "wf (measure (\<lambda>x. case x of
          Inl (b, n, v, q, t) \<Rightarrow> size v
        | Inr (Inl (b, n, i, bs, q, t)) \<Rightarrow> size_list size bs
        | Inr (Inr (b, m, q, t)) \<Rightarrow> size_list (size_prod (\<lambda>_. 0) size) m))"
    by simp
  show "\<And>baseMetricName aggName aggMap queryConfig timestamp x2 x5.
       map_of aggMap ''buckets'' = Some x2 \<Longrightarrow> x2 = JArr x5 \<Longrightarrow>
       (Inr (Inl (baseMetricName, aggName, 0, x5, queryConfig, timestamp)),
        Inl (baseMetricName, aggName, JObj aggMap, queryConfig, timestamp))
       \<in> measure (\<lambda>x. case x of
          Inl (b, n, v, q, t) \<Rightarrow> size v
        | Inr (Inl (b, n, i, bs, q, t)) \<Rightarrow> size_list size bs
        | Inr (Inr (b, m, q, t)) \<Rightarrow> size_list (size_prod (\<lambda>_. 0) size) m)"
    using lookup_size by fastforce
qed auto

text \<open>The loop of \<^verbatim>\<open>processAggregations\<close> over the aggregations of the response.\<close>

definition processAggregations ::
  "string \<Rightarrow> (string \<times> json) list \<Rightarrow> QueryConfig \<Rightarrow> nat \<Rightarrow> metric list" where
  "processAggregations baseMetricName aggregations queryConfig timestamp =
     concat (map (\<lambda>(aggName, aggValue).
                    processAggregation baseMetricName aggName aggValue queryConfig timestamp)
                 aggregations)"

section \<open>The client\<close>

text \<open>
  What a call of \<^verbatim>\<open>ExecuteQuery\<close> meets outside the repository: the clock, the rendering
  of an instant by \<^verbatim>\<open>Format(time.RFC3339)\<close>, the JSON encoder and decoder and the HTTP
  transport. Instants are nanoseconds since the Unix epoch. The layout
  \<^verbatim>\<open>time.RFC3339\<close> has no fractional seconds, so the rendering is a function of the whole
  seconds of the instant. Errors are their messages; \<open>Inl\<close> carries an error.
\<close>

record SearchRequest =
  sr_Query :: gval
  sr_Size :: int
  sr_Aggs :: gval

record http_request =
  req_method :: string
  req_url :: string
  req_body :: string
  req_content_type :: string
  req_basic_auth :: "(string \<times> string) option"

record http_response =
  StatusCode :: int
  ReadAll_Body :: "string + string"

record world =
  time_Now :: int
  render_seconds :: "int \<Rightarrow> string"
  json_Marshal :: "heap \<Rightarrow> SearchRequest \<Rightarrow> string + string"
  http_NewRequest :: "string \<Rightarrow> string \<Rightarrow> string \<Rightarrow> string option"
  http_Do :: "http_request \<Rightarrow> string + http_response"
  json_Unmarshal :: "string \<Rightarrow> string + SearchResponse"

definition unix_seconds :: "int \<Rightarrow> int" where
  "unix_seconds t = t div 1000000000"

definition Format_RFC3339 :: "world \<Rightarrow> int \<Rightarrow> string" where
  "Format_RFC3339 w t = render_seconds w (unix_seconds t)"

text \<open>\<^verbatim>\<open>now.Add(-c.config.LookbackPeriod)\<close>: the negation is that of \<^verbatim>\<open>int64\<close>.\<close>

definition startTime :: "Config \<Rightarrow> int \<Rightarrow> int" where
  "startTime cfg now = now + sint (- LookbackPeriod cfg)"

text \<open>
  \<^verbatim>\<open>addTimeRangeFilter\<close> builds five maps and two slices; it returns the wrapped query
  and the store with the new objects.
\<close>

definition addTimeRangeFilter :: "world \<Rightarrow> Config \<Rightarrow> heap \<Rightarrow> gval \<Rightarrow> gval \<times> heap" where
  "addTimeRangeFilter w cfg h query =
     (let now = time_Now w;
          start = startTime cfg now;
          (bounds, h1) = alloc (MapObj [(''gte'', GStr (Format_RFC3339 w start)),
                                        (''lte'', GStr (Format_RFC3339 w now))]) h;
          (field, h2) = alloc (MapObj [(TimeField cfg, GMap bounds)]) h1;
          (timeFilter, h3) = alloc (MapObj [(''range'', GMap field)]) h2;
          (must, h4) = alloc (SliceObj [query]) h3;
          (filter, h5) = alloc (SliceObj [GMap timeFilter]) h4;
          (boolQuery, h6) = alloc (MapObj [(''must'', GSlice must), (''filter'', GSlice filter)]) h5;
          (wrappedQuery, h7) = alloc (MapObj [(''bool'', GMap boolQuery)]) h6
      in (GMap wrappedQuery, h7))"

definition ExecuteQuery :: "world \<Rightarrow> Config \<Rightarrow> heap \<Rightarrow> QueryConfig \<Rightarrow> string + SearchResponse" where
  "ExecuteQuery w cfg h query =
     (let searchReq = \<lparr>sr_Query = Query query, sr_Size = 10000, sr_Aggs = GNil\<rparr>;
          (wrapped, h') = addTimeRangeFilter w cfg h (sr_Query searchReq);
          searchReq = searchReq\<lparr>sr_Query := wrapped\<rparr>
      in case json_Marshal w h' searchReq of
           Inl err \<Rightarrow> Inl (''failed to marshal query: '' @ err)
         | Inr reqBody \<Rightarrow>
            (let url = GetEndpoint cfg @ ''/'' @ IndexPattern cfg @ ''/_search''
             in case http_NewRequest w ''POST'' url reqBody of
                  Some err \<Rightarrow> Inl (''failed to create request: '' @ err)
                | None \<Rightarrow>
                   (let req = \<lparr>req_method = ''POST'', req_url = url, req_body = reqBody,
                               req_content_type = ''application/json'',
                               req_basic_auth =
                                 (if UsesBasicAuth cfg
                                  then Some (Username cfg, Password cfg) else None)\<rparr>
                    in case http_Do w req of
                         Inl err \<Rightarrow> Inl (''failed to execute request: '' @ err)
                       | Inr resp \<Rightarrow>
                           (case ReadAll_Body resp of
                              Inl err \<Rightarrow> Inl (''failed to read response: '' @ err)
                            | Inr body \<Rightarrow>
                               (if StatusCode resp \<noteq> 200
                                then Inl (''unexpected status code '' @ fmt_d (StatusCode resp)
                                            @ '': '' @ body)
                                else (case json_Unmarshal w body of
                                        Inl err \<Rightarrow> Inl (''failed to unmarshal response: '' @ err)
                                      | Inr searchResp \<Rightarrow> Inr searchResp))))))"

text \<open>An error of the status check is recognised by the head of its message.\<close>

definition is_status_error :: "string \<Rightarrow> bool" where
  "is_status_error err \<longleftrightarrow> prefix ''unexpected status code '' err"

section \<open>The scraper\<close>

text \<open>The metric name that \<^verbatim>\<open>executeAndRecordQuery\<close> determines for a query.\<close>

definition metric_name_of :: "QueryConfig \<Rightarrow> string" where
  "metric_name_of queryConfig =
     (if MetricName queryConfig = '''' then ''opensearch.query.'' @ Name queryConfig
      else MetricName queryConfig)"

text \<open>
  \<^verbatim>\<open>executeAndRecordQuery\<close> returns the metrics it appends to the scope together with its
  error (\<open>None\<close> for \<^verbatim>\<open>nil\<close>).
\<close>

definition executeAndRecordQuery ::
  "world \<Rightarrow> Config \<Rightarrow> heap \<Rightarrow> QueryConfig \<Rightarrow> nat \<Rightarrow> metric list \<times> string option" where
  "executeAndRecordQuery w cfg h queryConfig timestamp =
     (case ExecuteQuery w cfg h queryConfig of
        Inl err \<Rightarrow> ([], Some (''query execution failed: '' @ err))
      | Inr resp \<Rightarrow>
          let metricName = metric_name_of queryConfig
          in ([recordGaugeMetric (metricName @ ''.count'')
                 ''Number of documents matching the query'' ''hits''
                 (float64_of_int (sint (Value (HTotal (Hits resp))))) queryConfig timestamp,
               recordGaugeMetric (metricName @ ''.took_ms'')
                 ''Query execution time in milliseconds'' ''ms''
                 (float64_of_int (sint (Took resp))) queryConfig timestamp,
               recordGaugeMetric (metricName @ ''.shards.total'')
                 ''Total number of shards queried'' ''shards''
                 (float64_of_int (sint (Total (Shards resp)))) queryConfig timestamp,
               recordGaugeMetric (metricName @ ''.shards.successful'')
                 ''Number of successful shards'' ''shards''
                 (float64_of_int (sint (Successful (Shards resp)))) queryConfig timestamp,
               recordGaugeMetric (metricName @ ''.shards.failed'')
                 ''Number of failed shards'' ''shards''
                 (float64_of_int (sint (Failed (Shards resp)))) queryConfig timestamp]
              @ (if length (Aggregations resp) > 0
                 then processAggregations metricName (Aggregations resp) queryConfig timestamp
                 else []),
              None))"

text \<open>
  The outcome of \<^verbatim>\<open>scrape\<close>: the resource attributes, the scope name and the metrics of
  the batch, the error it returns and the entries it writes to the log at level Error.
  \<open>ws i\<close> is what the execution of the query at position \<open>i\<close> meets.
\<close>

record log_entry =
  log_message :: string
  log_query_name :: string
  log_error :: string

record scrape_result =
  resource_attrs :: "(string \<times> string) list"
  scope_name :: string
  batch :: "metric list"
  returned_error :: "string option"
  error_log :: "log_entry list"

definition typeStr :: string where
  "typeStr = ''opensearchquery''"

fun scrape_queries ::
  "(nat \<Rightarrow> world) \<Rightarrow> Config \<Rightarrow> heap \<Rightarrow> nat \<Rightarrow> nat \<Rightarrow> QueryConfig list
     \<Rightarrow> metric list \<times> log_entry list" where
  "scrape_queries ws cfg h now i [] = ([], [])"
| "scrape_queries ws cfg h now i (queryConfig # rest) =
     (let (recorded, err) = executeAndRecordQuery (ws i) cfg h queryConfig now;
          (recorded', logged') = scrape_queries ws cfg h now (Suc i) rest
      in (recorded @ recorded',
          (case err of
             Some e \<Rightarrow> [\<lparr>log_message = ''Failed to execute query'',
                          log_query_name = Name queryConfig, log_error = e\<rparr>]
           | None \<Rightarrow> [])
          @ logged'))"

definition scrape :: "(nat \<Rightarrow> world) \<Rightarrow> Config \<Rightarrow> heap \<Rightarrow> nat \<Rightarrow> scrape_result" where
  "scrape ws cfg h now =
     (let (recorded, logged) = scrape_queries ws cfg h now 0 (Queries cfg)
      in \<lparr>resource_attrs =
            PutStr ''opensearch.mode'' (Mode cfg)
              (PutStr ''opensearch.index_pattern'' (IndexPattern cfg)
                (PutStr ''opensearch.endpoint'' (GetEndpoint cfg)
                  (PutStr ''receiver'' typeStr []))),
          scope_name = typeStr,
          batch = recorded,
          returned_error = None,
          error_log = logged\<rparr>)"

section \<open>The collection loop\<close>

text \<open>
  The goroutine of \<^verbatim>\<open>collectionLoop\<close> blocks in two \<^verbatim>\<open>select\<close> statements: the one
  that waits for the initial delay and the one at the head of the loop. Between two
  steps of the goroutine the surroundings act: the context is cancelled, the timer of
  \<^verbatim>\<open>time.After\<close> fires, the ticker fires. The channel of a ticker buffers one tick and a
  tick that finds the buffer full is dropped. A \<^verbatim>\<open>select\<close> takes any case whose channel
  is ready; when both are ready either may be taken.
\<close>

datatype loop_pc = Delaying | Looping | Returned | Panicked

record loop_state =
  pc :: loop_pc
  cancelled :: bool
  delay_fired :: bool
  tick_buffered :: bool
  cycles :: nat

datatype select_case = TakeDone | TakeTimer

datatype loop_event = Cancel | DelayElapsed | Tick | Select select_case

text \<open>
  After the initial delay: \<^verbatim>\<open>time.NewTicker\<close>, which panics on an interval that is not
  positive, then the first call of \<^verbatim>\<open>collect\<close>.
\<close>

definition after_delay :: "Config \<Rightarrow> loop_state \<Rightarrow> loop_state" where
  "after_delay cfg s =
     (if sint (CollectionInterval cfg) \<le> 0 then s\<lparr>pc := Panicked\<rparr>
      else s\<lparr>pc := Looping, cycles := cycles s + 1\<rparr>)"

text \<open>The goroutine from its start to the first \<^verbatim>\<open>select\<close> in which it blocks.\<close>

definition loop_start :: "Config \<Rightarrow> loop_state" where
  "loop_start cfg =
     (let s = \<lparr>pc = Delaying, cancelled = False, delay_fired = False,
               tick_buffered = False, cycles = 0\<rparr>
      in if 0 < sint (InitialDelay cfg) then s else after_delay cfg s)"

text \<open>One event; \<open>None\<close> when the \<^verbatim>\<open>select\<close> cannot take the case.\<close>

fun loop_step :: "Config \<Rightarrow> loop_state \<Rightarrow> loop_event \<Rightarrow> loop_state option" where
  "loop_step cfg s Cancel = Some (s\<lparr>cancelled := True\<rparr>)"
| "loop_step cfg s DelayElapsed =
     Some (if pc s = Delaying then s\<lparr>delay_fired := True\<rparr> else s)"
| "loop_step cfg s Tick =
     Some (if pc s = Looping then s\<lparr>tick_buffered := True\<rparr> else s)"
| "loop_step cfg s (Select TakeDone) =
     (if (pc s = Delaying \<or> pc s = Looping) \<and> cancelled s
      then Some (s\<lparr>pc := Returned, tick_buffered := False\<rparr>) else None)"
| "loop_step cfg s (Select TakeTimer) =
     (if pc s = Delaying \<and> delay_fired s then Some (after_delay cfg s)
      else if pc s = Looping \<and> tick_buffered s
      then Some (s\<lparr>tick_buffered := False, cycles := cycles s + 1\<rparr>)
      else None)"

fun loop_run :: "Config \<Rightarrow> loop_state \<Rightarrow> loop_event list \<Rightarrow> loop_state option" where
  "loop_run cfg s [] = Some s"
| "loop_run cfg s (e # es) =
     (case loop_step cfg s e of None \<Rightarrow> None | Some s' \<Rightarrow> loop_run cfg s' es)"

definition collectionLoop :: "Config \<Rightarrow> loop_event list \<Rightarrow> loop_state option" where
  "collectionLoop cfg es = loop_run cfg (loop_start cfg) es"

section \<open>Example inputs\<close>

text \<open>The configuration of \<^verbatim>\<open>TestConfigDefaults\<close>: a store with the query body
  \<^verbatim>\<open>{"match_all": {}}\<close> and one query that refers to it.\<close>

definition example_store :: heap where
  "example_store = [MapObj [(''match_all'', GMap 1)], MapObj []]"

definition example_query :: QueryConfig where
  "example_query =
     \<lparr>Name = ''test'', Description = '''', Query = GMap 0, MetricName = '''', Labels = []\<rparr>"

definition example_config :: Config where
  "example_config =
     \<lparr>Endpoint = ''https://localhost:9200'', Timeout = 30 * Second,
      CollectionInterval = 60 * Second, InitialDelay = 0, Mode = ''direct'',
      Username = '''', Password = '''', ProxyEndpoint = '''',
      Queries = [example_query], IndexPattern = ''logs-*'', TimeField = '''',
      LookbackPeriod = 0\<rparr>"

text \<open>The response of the example of the aggregation walk.\<close>

definition levels_aggregations :: "(string \<times> json) list" where
  "levels_aggregations =
     [(''levels'', JObj [(''buckets'', JArr [JObj [(''key'', JStr ''ERROR''),
        (''doc_count'', JNum 10), (''avg_latency'', JObj [(''value'', JNum 120.5)])]])])]"


text \<open>The query of \<^verbatim>\<open>TestIntegrationAggregations\<close>: it has a description and a label.\<close>

definition described_query :: QueryConfig where
  "described_query =
     \<lparr>Name = ''logs_by_level'', Description = ''Count logs grouped by level'', Query = GMap 0,
      MetricName = ''logs.by_level'', Labels = [(''source'', ''integration_test'')]\<rparr>"

text \<open>
  A world in which the request is sent and answered with the given status and body, and in
  which the body decodes to the given response. Two responses: an ordinary one with the
  aggregations of the example, and one whose hit count is \<open>2^53 + 1\<close>.
\<close>

definition answering_world :: "int \<Rightarrow> string \<Rightarrow> SearchResponse \<Rightarrow> world" where
  "answering_world status body resp =
     \<lparr>time_Now = 1700000000500000000,
      render_seconds = fmt_d,
      json_Marshal = (\<lambda>h req. Inr ''{}''),
      http_NewRequest = (\<lambda>method url body. None),
      http_Do = (\<lambda>req. Inr \<lparr>StatusCode = status, ReadAll_Body = Inr body\<rparr>),
      json_Unmarshal = (\<lambda>body. Inr resp)\<rparr>"

definition example_response :: SearchResponse where
  "example_response =
     \<lparr>Took = 5, TimedOut = False,
      Shards = \<lparr>Total = 5, Successful = 5, Skipped = 0, Failed = 0\<rparr>,
      Hits = \<lparr>HTotal = \<lparr>Value = 42, Relation = ''eq''\<rparr>\<rparr>,
      Aggregations = levels_aggregations\<rparr>"

definition big_response :: SearchResponse where
  "big_response =
     \<lparr>Took = 5, TimedOut = False,
      Shards = \<lparr>Total = 5, Successful = 5, Skipped = 0, Failed = 0\<rparr>,
      Hits = \<lparr>HTotal = \<lparr>Value = 9007199254740993, Relation = ''eq''\<rparr>\<rparr>,
      Aggregations = []\<rparr>"

text \<open>A configuration with three queries, and worlds in which the second one is answered
  with status 500 while the others succeed.\<close>

definition three_queries :: Config where
  "three_queries =
     example_config\<lparr>Queries :=
       [example_query\<lparr>Name := ''first''\<rparr>, example_query\<lparr>Name := ''second''\<rparr>,
        example_query\<lparr>Name := ''third''\<rparr>]\<rparr>"

definition second_fails :: "nat \<Rightarrow> world" where
  "second_fails i =
     (if i = 1 then answering_world 500 ''Internal server error'' example_response
      else answering_world 200 ''{}'' big_response)"

section \<open>Properties of \<^verbatim>\<open>Validate\<close>\<close>

lemma five_minutes_nonzero: "5 * Minute \<noteq> (0 :: duration)"
  by (simp add: Minute_def Second_def)

lemma Validate_outcome:
  "(\<exists>err. Validate h cfg = (Some err, cfg)) \<or>
   Validate h cfg =
     (None, cfg\<lparr>TimeField := (if TimeField cfg = [] then ''@timestamp'' else TimeField cfg),
                LookbackPeriod := (if LookbackPeriod cfg = 0 then 5 * Minute
                                   else LookbackPeriod cfg)\<rparr>)"
proof -
  consider
      (no_mode) "Mode cfg = []"
    | (bad_mode) "Mode cfg \<noteq> []" "Mode cfg \<noteq> ''direct''" "Mode cfg \<noteq> ''proxy''"
    | (no_endpoint) "Mode cfg = ''direct''" "Endpoint cfg = []"
    | (no_proxy) "Mode cfg = ''proxy''" "ProxyEndpoint cfg = []"
    | (no_queries) "Mode cfg = ''direct'' \<and> Endpoint cfg \<noteq> []
                      \<or> Mode cfg = ''proxy'' \<and> ProxyEndpoint cfg \<noteq> []"
                   "Queries cfg = []"
    | (bad_query) err where
        "Mode cfg = ''direct'' \<and> Endpoint cfg \<noteq> []
           \<or> Mode cfg = ''proxy'' \<and> ProxyEndpoint cfg \<noteq> []"
        "Queries cfg \<noteq> []" "validate_queries h 0 (Queries cfg) = Some err"
    | (no_index) 
        "Mode cfg = ''direct'' \<and> Endpoint cfg \<noteq> []
           \<or> Mode cfg = ''proxy'' \<and> ProxyEndpoint cfg \<noteq> []"
        "Queries cfg \<noteq> []" "validate_queries h 0 (Queries cfg) = None"
        "IndexPattern cfg = []"
    | (valid)
        "Mode cfg = ''direct'' \<and> Endpoint cfg \<noteq> []
           \<or> Mode cfg = ''proxy'' \<and> ProxyEndpoint cfg \<noteq> []"
        "Queries cfg \<noteq> []" "validate_queries h 0 (Queries cfg) = None"
        "IndexPattern cfg \<noteq> []"
    by (cases "validate_queries h 0 (Queries cfg)") blast+
  then show ?thesis
  proof cases
    case no_mode
    then have "Validate h cfg = (Some ''mode must be specified (direct or proxy)'', cfg)"
      by (simp add: Validate_def)
    then show ?thesis by blast
  next
    case bad_mode
    then have "\<exists>err. Validate h cfg = (Some err, cfg)"
      by (simp add: Validate_def)
    then show ?thesis by blast
  next
    case no_endpoint
    then have "Validate h cfg = (Some ''endpoint must be specified in direct mode'', cfg)"
      by (simp add: Validate_def)
    then show ?thesis by blast
  next
    case no_proxy
    then have "Validate h cfg = (Some ''proxy_endpoint must be specified in proxy mode'', cfg)"
      by (simp add: Validate_def)
    then show ?thesis by blast
  next
    case no_queries
    from no_queries(1) have "Validate h cfg = (Some ''at least one query must be configured'', cfg)"
      by (rule disjE) (simp_all add: Validate_def no_queries(2))
    then show ?thesis by blast
  next
    case bad_query
    from bad_query(1) have "Validate h cfg = (Some err, cfg)"
      by (rule disjE) (simp_all add: Validate_def bad_query(2,3))
    then show ?thesis by blast
  next
    case no_index
    from no_index(1) have "Validate h cfg = (Some ''index_pattern must be specified'', cfg)"
      by (rule disjE) (simp_all add: Validate_def no_index(2,3,4))
    then show ?thesis by blast
  next
    case valid
    from valid(1) have "Validate h cfg =
        (let cfg1 = (if TimeField cfg = [] then cfg\<lparr>TimeField := ''@timestamp''\<rparr> else cfg);
             cfg2 = (if LookbackPeriod cfg1 = 0
                     then cfg1\<lparr>LookbackPeriod := 5 * Minute\<rparr> else cfg1)
         in (None, cfg2))"
      by (rule disjE) (simp_all add: Validate_def valid(2,3,4))
    also have "\<dots> =
        (None, cfg\<lparr>TimeField := (if TimeField cfg = [] then ''@timestamp'' else TimeField cfg),
                   LookbackPeriod := (if LookbackPeriod cfg = 0 then 5 * Minute
                                      else LookbackPeriod cfg)\<rparr>)"
      by (cases "TimeField cfg = []"; cases "LookbackPeriod cfg = 0") (simp_all add: Let_def)
    finally show ?thesis by blast
  qed
qed

text \<open>
  Claim C10. \<^verbatim>\<open>Validate\<close> leaves the configuration as it was whenever it returns an
  error. Whenever it succeeds, the configuration differs from the one it was given at
  most in \<^verbatim>\<open>TimeField\<close>, which becomes \<^verbatim>\<open>@timestamp\<close> if it was empty, and in
  \<^verbatim>\<open>LookbackPeriod\<close>, which becomes five minutes if it was zero; so after a successful
  call the time field is not empty and the lookback period is not zero.
\<close>

theorem Validate_atomic_and_defaults:
  "(\<forall>err. fst (Validate h cfg) = Some err \<longrightarrow> snd (Validate h cfg) = cfg) \<and>
   (fst (Validate h cfg) = None \<longrightarrow>
      snd (Validate h cfg) =
        cfg\<lparr>TimeField := (if TimeField cfg = '''' then ''@timestamp'' else TimeField cfg),
            LookbackPeriod := (if LookbackPeriod cfg = 0 then 5 * Minute else LookbackPeriod cfg)\<rparr>
      \<and> TimeField (snd (Validate h cfg)) \<noteq> ''''
      \<and> LookbackPeriod (snd (Validate h cfg)) \<noteq> 0)"
proof -
  from Validate_outcome [of h cfg] show ?thesis
  proof
    assume "\<exists>err. Validate h cfg = (Some err, cfg)"
    then show ?thesis by auto
  next
    assume ok: "Validate h cfg =
     (None, cfg\<lparr>TimeField := (if TimeField cfg = '''' then ''@timestamp'' else TimeField cfg),
                LookbackPeriod := (if LookbackPeriod cfg = 0 then 5 * Minute
                                   else LookbackPeriod cfg)\<rparr>)"
    show ?thesis using five_minutes_nonzero by (simp add: ok)
  qed
qed

theorem Validate_atomic_and_defaults_witness:
  "fst (Validate example_store (example_config\<lparr>IndexPattern := ''''\<rparr>))
     = Some ''index_pattern must be specified''
   \<and> snd (Validate example_store (example_config\<lparr>IndexPattern := ''''\<rparr>))
     = example_config\<lparr>IndexPattern := ''''\<rparr>
   \<and> fst (Validate example_store example_config) = None
   \<and> TimeField (snd (Validate example_store example_config)) = ''@timestamp''
   \<and> LookbackPeriod (snd (Validate example_store example_config)) = 300000000000"
  using Validate_atomic_and_defaults [of example_store "example_config\<lparr>IndexPattern := ''''\<rparr>"]
    Validate_atomic_and_defaults [of example_store example_config]
  by (simp add: Validate_def example_config_def example_query_def example_store_def
        map_len_def deref_def Let_def Minute_def Second_def)

section \<open>Properties of the formatting verbs and of the attribute map\<close>





lemma map_of_put_labels:
  "map_of (put_labels ls attrs) k =
     (case map_of (rev ls) k of Some v \<Rightarrow> Some v | None \<Rightarrow> map_of attrs k)"
proof (induction ls arbitrary: attrs)
  case Nil
  then show ?case by (simp add: put_labels_def)
next
  case (Cons l ls)
  obtain a b where l: "l = (a, b)" by (cases l)
  have "put_labels (l # ls) attrs = put_labels ls (PutStr a b attrs)"
    by (simp add: put_labels_def l)
  then show ?case
    using Cons.IH [of "PutStr a b attrs"]
    by (auto simp: l PutStr_def update_conv map_add_def split: option.splits)
qed


section \<open>Properties of the aggregation walk\<close>








lemma levels_example:
  "processAggregations p levels_aggregations q ts =
     [bucket_doc_count_metric p ''levels'' ''ERROR'' 10 q ts,
      recordGaugeMetric (p @ ''.ERROR.agg.avg_latency'') ''Aggregation result for avg_latency''
        '''' 120.5 q ts]"
  by (simp add: processAggregations_def levels_aggregations_def Let_def bucket_key_def)





text \<open>
  Claim C2, as stated, fails: a node that has both a numeric \<^verbatim>\<open>doc_count\<close> and a
  \<^verbatim>\<open>buckets\<close> list yields the document count of the node besides those of its buckets.
\<close>

theorem node_doc_count_with_buckets_counterexample:
  "map_of [(''doc_count'', JNum 5), (''buckets'', JArr [JObj [(''key'', JStr ''a''), (''doc_count'', JNum 2)]])]
      ''buckets'' = Some (JArr [JObj [(''key'', JStr ''a''), (''doc_count'', JNum 2)]])
   \<and> processAggregation ''p'' ''levels''
        (JObj [(''doc_count'', JNum 5),
               (''buckets'', JArr [JObj [(''key'', JStr ''a''), (''doc_count'', JNum 2)]])])
        example_query 0 =
      [recordGaugeMetric ''p.agg.levels.doc_count'' ''Document count for levels'' ''documents'' 5
         example_query 0,
       bucket_doc_count_metric ''p'' ''levels'' ''a'' 2 example_query 0]
   \<and> metric_unit (recordGaugeMetric ''p.agg.levels.doc_count'' ''Document count for levels''
         ''documents'' 5 example_query 0) = ''documents''"
  by (simp add: Let_def bucket_key_def recordGaugeMetric_def)

text \<open>
  Claim C2, amended. The walk emits the metric \<open>base.agg.name.doc_count\<close> with unit
  \<^verbatim>\<open>documents\<close> for a node whenever the node has a numeric \<^verbatim>\<open>doc_count\<close> member, whether
  or not it has buckets. A node without a numeric \<^verbatim>\<open>doc_count\<close> yields only the metric of
  its \<^verbatim>\<open>value\<close> and the metrics of its buckets; if it has no bucket list either, none of
  its metrics bears the name \<open>base.agg.name.doc_count\<close>.
\<close>

theorem node_doc_count_iff_numeric:
  "(\<forall>d. map_of aggMap ''doc_count'' = Some (JNum d) \<longrightarrow>
       recordGaugeMetric (base @ ''.agg.'' @ agg @ ''.doc_count'') (''Document count for '' @ agg)
         ''documents'' d q ts \<in> set (processAggregation base agg (JObj aggMap) q ts)
       \<and> metric_name (recordGaugeMetric (base @ ''.agg.'' @ agg @ ''.doc_count'')
            (''Document count for '' @ agg) ''documents'' d q ts)
          = base @ ''.agg.'' @ agg @ ''.doc_count''
       \<and> metric_unit (recordGaugeMetric (base @ ''.agg.'' @ agg @ ''.doc_count'')
            (''Document count for '' @ agg) ''documents'' d q ts) = ''documents''
       \<and> dp_value (recordGaugeMetric (base @ ''.agg.'' @ agg @ ''.doc_count'')
            (''Document count for '' @ agg) ''documents'' d q ts) = d)
   \<and> ((\<forall>d. map_of aggMap ''doc_count'' \<noteq> Some (JNum d)) \<longrightarrow>
       processAggregation base agg (JObj aggMap) q ts =
         (case map_of aggMap ''value'' of
            Some (JNum v) \<Rightarrow>
              [recordGaugeMetric (base @ ''.agg.'' @ agg) (''Aggregation result for '' @ agg)
                 '''' v q ts]
          | _ \<Rightarrow> [])
         @ (case map_of aggMap ''buckets'' of
              Some (JArr buckets) \<Rightarrow> processBuckets base agg 0 buckets q ts
            | _ \<Rightarrow> []))
   \<and> ((\<forall>d. map_of aggMap ''doc_count'' \<noteq> Some (JNum d))
        \<and> (\<forall>buckets. map_of aggMap ''buckets'' \<noteq> Some (JArr buckets)) \<longrightarrow>
       (\<forall>m \<in> set (processAggregation base agg (JObj aggMap) q ts).
          metric_name m \<noteq> base @ ''.agg.'' @ agg @ ''.doc_count''))"
proof -
  have fields: "metric_name (recordGaugeMetric n de u x q ts) = n"
    "metric_unit (recordGaugeMetric n de u x q ts) = u"
    "dp_value (recordGaugeMetric n de u x q ts) = x" for n de u x
    by (simp_all add: recordGaugeMetric_def)
  have present: "recordGaugeMetric (base @ ''.agg.'' @ agg @ ''.doc_count'')
         (''Document count for '' @ agg) ''documents'' d q ts
       \<in> set (processAggregation base agg (JObj aggMap) q ts)"
    if "map_of aggMap ''doc_count'' = Some (JNum d)" for d
    using that by simp
  have doc_part: "(case map_of aggMap ''doc_count'' of
        Some (JNum docCount) \<Rightarrow>
          [recordGaugeMetric (base @ ''.agg.'' @ agg @ ''.doc_count'')
             (''Document count for '' @ agg) ''documents'' docCount q ts]
      | _ \<Rightarrow> []) = []" if "\<forall>d. map_of aggMap ''doc_count'' \<noteq> Some (JNum d)"
    using that by (simp split: option.splits json.splits)
  have absent: "processAggregation base agg (JObj aggMap) q ts =
         (case map_of aggMap ''value'' of
            Some (JNum v) \<Rightarrow>
              [recordGaugeMetric (base @ ''.agg.'' @ agg) (''Aggregation result for '' @ agg)
                 '''' v q ts]
          | _ \<Rightarrow> [])
         @ (case map_of aggMap ''buckets'' of
              Some (JArr buckets) \<Rightarrow> processBuckets base agg 0 buckets q ts
            | _ \<Rightarrow> [])"
    if "\<forall>d. map_of aggMap ''doc_count'' \<noteq> Some (JNum d)"
    by (simp add: doc_part [OF that])
  have bucket_part: "(case map_of aggMap ''buckets'' of
              Some (JArr buckets) \<Rightarrow> processBuckets base agg 0 buckets q ts
            | _ \<Rightarrow> []) = []" if "\<forall>buckets. map_of aggMap ''buckets'' \<noteq> Some (JArr buckets)"
    using that by (simp split: option.splits json.splits)
  have no_name: "metric_name m \<noteq> base @ ''.agg.'' @ agg @ ''.doc_count''"
    if "\<forall>d. map_of aggMap ''doc_count'' \<noteq> Some (JNum d)"
       "\<forall>buckets. map_of aggMap ''buckets'' \<noteq> Some (JArr buckets)"
       "m \<in> set (processAggregation base agg (JObj aggMap) q ts)" for m
  proof -
    from that(3) have "m \<in> set (case map_of aggMap ''value'' of
            Some (JNum v) \<Rightarrow>
              [recordGaugeMetric (base @ ''.agg.'' @ agg) (''Aggregation result for '' @ agg)
                 '''' v q ts]
          | _ \<Rightarrow> [])"
      by (simp only: absent [OF that(1)] bucket_part [OF that(2)] append_Nil2)
    then have "metric_name m = base @ ''.agg.'' @ agg"
      by (auto simp: fields split: option.splits json.splits)
    then show ?thesis by simp
  qed
  from fields present absent no_name show ?thesis by blast
qed

theorem node_doc_count_iff_numeric_witness:
  "recordGaugeMetric ''p.agg.levels.doc_count'' ''Document count for levels'' ''documents'' 5
       example_query 0
     \<in> set (processAggregation ''p'' ''levels''
              (JObj [(''doc_count'', JNum 5), (''buckets'', JArr [])]) example_query 0)
   \<and> processAggregation ''p'' ''levels'' (JObj [(''value'', JNum 3)]) example_query 0 =
       [recordGaugeMetric ''p.agg.levels'' ''Aggregation result for levels'' '''' 3 example_query 0]
   \<and> list_all (\<lambda>m. metric_name m \<noteq> ''p.agg.levels.doc_count'')
        (processAggregation ''p'' ''levels'' (JObj [(''value'', JNum 3)]) example_query 0)"
proof -
  from node_doc_count_iff_numeric [of "[(''doc_count'', JNum 5), (''buckets'', JArr [])]"
      "''p''" "''levels''" example_query 0]
  have "map_of [(''doc_count'', JNum 5), (''buckets'', JArr [])] ''doc_count'' = Some (JNum 5) \<longrightarrow>
       recordGaugeMetric (''p'' @ ''.agg.'' @ ''levels'' @ ''.doc_count'')
         (''Document count for '' @ ''levels'') ''documents'' 5 example_query 0
       \<in> set (processAggregation ''p'' ''levels''
              (JObj [(''doc_count'', JNum 5), (''buckets'', JArr [])]) example_query 0)"
    by blast
  then have one: "recordGaugeMetric ''p.agg.levels.doc_count'' ''Document count for levels''
       ''documents'' 5 example_query 0
     \<in> set (processAggregation ''p'' ''levels''
              (JObj [(''doc_count'', JNum 5), (''buckets'', JArr [])]) example_query 0)"
    by simp
  have none: "\<forall>d. map_of [(''value'', JNum 3)] ''doc_count'' \<noteq> Some (JNum d)"
      "\<forall>buckets. map_of [(''value'', JNum 3)] ''buckets'' \<noteq> Some (JArr buckets)"
    by simp_all
  from node_doc_count_iff_numeric [of "[(''value'', JNum 3)]" "''p''" "''levels''" example_query 0] none
  have eq: "processAggregation ''p'' ''levels'' (JObj [(''value'', JNum 3)]) example_query 0 =
         (case map_of [(''value'', JNum 3)] ''value'' of
            Some (JNum v) \<Rightarrow>
              [recordGaugeMetric (''p'' @ ''.agg.'' @ ''levels'') (''Aggregation result for '' @ ''levels'')
                 '''' v example_query 0]
          | _ \<Rightarrow> [])
         @ (case map_of [(''value'', JNum 3)] ''buckets'' of
              Some (JArr buckets) \<Rightarrow> processBuckets ''p'' ''levels'' 0 buckets example_query 0
            | _ \<Rightarrow> [])"
    and nn: "\<forall>m \<in> set (processAggregation ''p'' ''levels'' (JObj [(''value'', JNum 3)]) example_query 0).
          metric_name m \<noteq> ''p'' @ ''.agg.'' @ ''levels'' @ ''.doc_count''"
    by blast+
  from eq have two: "processAggregation ''p'' ''levels'' (JObj [(''value'', JNum 3)]) example_query 0 =
       [recordGaugeMetric ''p.agg.levels'' ''Aggregation result for levels'' '''' 3 example_query 0]"
    by simp
  from nn have three: "list_all (\<lambda>m. metric_name m \<noteq> ''p.agg.levels.doc_count'')
        (processAggregation ''p'' ''levels'' (JObj [(''value'', JNum 3)]) example_query 0)"
    by (simp add: list_all_iff)
  from one two three show ?thesis by simp
qed

section \<open>Properties of the attributes\<close>

lemma gauge_attrs:
  "map_of (dp_attrs (recordGaugeMetric n de u x q ts)) k =
     (case map_of (rev (Labels q)) k of
        Some v \<Rightarrow> Some v
      | None \<Rightarrow>
          if k = ''query.description'' \<and> Description q \<noteq> '''' then Some (Description q)
          else if k = ''query.name'' then Some (Name q) else None)"
  by (simp add: recordGaugeMetric_def map_of_put_labels PutStr_def Let_def split: option.splits)

lemma bucket_attrs_all:
  "map_of (dp_attrs (bucket_doc_count_metric base agg key d q ts)) k =
     (case map_of (rev (Labels q)) k of
        Some v \<Rightarrow> Some v
      | None \<Rightarrow> map_of [(''query.name'', Name q), (''bucket.key'', key), (''aggregation'', agg)] k)"
  by (simp add: bucket_doc_count_metric_def map_of_put_labels PutStr_def split: option.splits)

text \<open>
  What holds of the attributes of every metric of the walk: each label of the query
  configuration is there with the value the configuration gives it, and \<^verbatim>\<open>query.name\<close>
  is a key.
\<close>

lemma gauge_carries_labels:
  "(\<forall>k v. map_of (rev (Labels q)) k = Some v \<longrightarrow>
      map_of (dp_attrs (recordGaugeMetric n de u x q ts)) k = Some v)
   \<and> map_of (dp_attrs (recordGaugeMetric n de u x q ts)) ''query.name'' \<noteq> None"
  by (simp add: gauge_attrs split: option.splits)

lemma bucket_carries_labels:
  "(\<forall>k v. map_of (rev (Labels q)) k = Some v \<longrightarrow>
      map_of (dp_attrs (bucket_doc_count_metric base agg key d q ts)) k = Some v)
   \<and> map_of (dp_attrs (bucket_doc_count_metric base agg key d q ts)) ''query.name'' \<noteq> None"
  by (simp add: bucket_attrs_all split: option.splits)

lemma walk_carries_labels:
  fixes P :: "QueryConfig \<Rightarrow> metric \<Rightarrow> bool"
  defines "P \<equiv> \<lambda>q m. (\<forall>k v. map_of (rev (Labels q)) k = Some v \<longrightarrow> map_of (dp_attrs m) k = Some v)
     \<and> map_of (dp_attrs m) ''query.name'' \<noteq> None"
  shows "\<forall>m \<in> set (processAggregation base agg v q ts). P q m"
    and "\<forall>m \<in> set (processBuckets base agg i bs q ts). P q m"
    and "\<forall>m \<in> set (processNested nbase members q ts). P q m"
proof (induction base agg v q ts and base agg i bs q ts and nbase members q ts
    rule: processAggregation_processBuckets_processNested.induct)
  case (1 baseMetricName aggName aggMap queryConfig timestamp)
  have buckets: "\<forall>m \<in> set (case map_of aggMap ''buckets'' of
        Some (JArr buckets) \<Rightarrow>
          processBuckets baseMetricName aggName 0 buckets queryConfig timestamp
      | _ \<Rightarrow> []). P queryConfig m"
  proof (cases "map_of aggMap ''buckets''")
    case None
    then show ?thesis by simp
  next
    case (Some b)
    show ?thesis
    proof (cases b)
      case (JArr bs)
      with Some 1 show ?thesis by simp
    qed (simp_all add: Some)
  qed
  have gauge: "P queryConfig (recordGaugeMetric n de u x queryConfig timestamp)" for n de u x
    unfolding P_def by (rule gauge_carries_labels)
  have "\<forall>m \<in> set (case map_of aggMap ''value'' of
        Some (JNum val) \<Rightarrow>
          [recordGaugeMetric (baseMetricName @ ''.agg.'' @ aggName)
             (''Aggregation result for '' @ aggName) '''' val queryConfig timestamp]
      | _ \<Rightarrow> []). P queryConfig m"
    by (auto simp: gauge split: option.splits json.splits)
  moreover have "\<forall>m \<in> set (case map_of aggMap ''doc_count'' of
        Some (JNum docCount) \<Rightarrow>
          [recordGaugeMetric (baseMetricName @ ''.agg.'' @ aggName @ ''.doc_count'')
             (''Document count for '' @ aggName) ''documents'' docCount queryConfig timestamp]
      | _ \<Rightarrow> []). P queryConfig m"
    by (auto simp: gauge split: option.splits json.splits)
  ultimately show ?case using buckets
    by (simp only: processAggregation.simps set_append) blast
next
  case (4 baseMetricName aggName i bucketMap rest queryConfig timestamp)
  have "P queryConfig (bucket_doc_count_metric baseMetricName aggName key d queryConfig timestamp)"
    for key d
    unfolding P_def by (rule bucket_carries_labels)
  then have "\<forall>m \<in> set (case map_of bucketMap ''doc_count'' of
            Some (JNum docCount) \<Rightarrow>
              [bucket_doc_count_metric baseMetricName aggName (bucket_key i bucketMap) docCount
                 queryConfig timestamp]
          | _ \<Rightarrow> []). P queryConfig m"
    by (auto split: option.splits json.splits)
  with 4 show ?case by (auto simp: Let_def)
qed auto

text \<open>
  Claim C4 at a query with a description: the document count of a bucket carries
  \<^verbatim>\<open>query.name\<close>, \<^verbatim>\<open>bucket.key\<close>, \<^verbatim>\<open>aggregation\<close> and the labels of the configuration,
  and no \<^verbatim>\<open>query.description\<close>, which the metrics recorded by \<^verbatim>\<open>recordGaugeMetric\<close>
  for the same query do carry.
\<close>

theorem bucket_doc_count_lacks_description:
  "Description described_query \<noteq> ''''
   \<and> processAggregations ''logs.by_level'' levels_aggregations described_query 0 =
       [bucket_doc_count_metric ''logs.by_level'' ''levels'' ''ERROR'' 10 described_query 0,
        recordGaugeMetric ''logs.by_level.ERROR.agg.avg_latency''
          ''Aggregation result for avg_latency'' '''' 120.5 described_query 0]
   \<and> dp_attrs (bucket_doc_count_metric ''logs.by_level'' ''levels'' ''ERROR'' 10 described_query 0) =
       [(''query.name'', ''logs_by_level''), (''bucket.key'', ''ERROR''),
        (''aggregation'', ''levels''), (''source'', ''integration_test'')]
   \<and> map_of (dp_attrs (bucket_doc_count_metric ''logs.by_level'' ''levels'' ''ERROR'' 10
                described_query 0)) ''query.description'' = None
   \<and> dp_attrs (recordGaugeMetric ''logs.by_level.ERROR.agg.avg_latency''
          ''Aggregation result for avg_latency'' '''' 120.5 described_query 0) =
       [(''query.name'', ''logs_by_level''),
        (''query.description'', ''Count logs grouped by level''),
        (''source'', ''integration_test'')]"
proof -
  have "processAggregations ''logs.by_level'' levels_aggregations described_query 0 =
       [bucket_doc_count_metric ''logs.by_level'' ''levels'' ''ERROR'' 10 described_query 0,
        recordGaugeMetric ''logs.by_level.ERROR.agg.avg_latency''
          ''Aggregation result for avg_latency'' '''' 120.5 described_query 0]"
    using levels_example [of "''logs.by_level''" described_query 0] by simp
  moreover have "dp_attrs (bucket_doc_count_metric ''logs.by_level'' ''levels'' ''ERROR'' 10
        described_query 0) =
       [(''query.name'', ''logs_by_level''), (''bucket.key'', ''ERROR''),
        (''aggregation'', ''levels''), (''source'', ''integration_test'')]"
    by (simp add: bucket_doc_count_metric_def described_query_def put_labels_def PutStr_def)
  moreover have "dp_attrs (recordGaugeMetric ''logs.by_level.ERROR.agg.avg_latency''
          ''Aggregation result for avg_latency'' '''' 120.5 described_query 0) =
       [(''query.name'', ''logs_by_level''),
        (''query.description'', ''Count logs grouped by level''),
        (''source'', ''integration_test'')]"
    by (simp add: recordGaugeMetric_def described_query_def put_labels_def PutStr_def)
  moreover have "Description described_query \<noteq> ''''"
    by (simp add: described_query_def)
  ultimately show ?thesis by simp
qed

section \<open>Properties of the summary metrics\<close>

lemma bit_length_le: "a < 2 ^ k \<Longrightarrow> bit_length a \<le> k"
proof (induction k arbitrary: a)
  case 0
  then show ?case by (simp add: bit_length.simps)
next
  case (Suc k)
  then have "a div 2 < 2 ^ k" by simp
  from Suc.IH [OF this] show ?case by (subst bit_length.simps) simp
qed

lemma bit_length_power: "bit_length (2 ^ k) = Suc k"
  by (induction k) (simp_all add: bit_length.simps)

lemma float64_of_int_exact:
  assumes "\<bar>n\<bar> \<le> 2 ^ 53"
  shows "float64_of_int n = of_int n"
proof (cases "\<bar>n\<bar> = 2 ^ 53")
  case True
  then have a: "nat \<bar>n\<bar> = 2 ^ 53" by simp
  have e: "bit_length (2 ^ 53) = 54" using bit_length_power [of 53] by simp
  have "float64_of_int n = of_int (sgn n) * of_nat (2 ^ 53)"
    using e by (simp add: float64_of_int_def a Let_def)
  also have "\<dots> = of_int (sgn n * \<bar>n\<bar>)" by (simp add: True)
  finally show ?thesis by (simp add: mult_sgn_abs)
next
  case False
  with assms have "nat \<bar>n\<bar> < 2 ^ 53" by simp
  from bit_length_le [OF this] show ?thesis by (simp add: float64_of_int_def Let_def)
qed

lemma sublist_append_left: "sublist xs ys \<Longrightarrow> sublist xs (ps @ ys)"
  by (metis append.assoc sublist_def)

lemma walk_names:
  fixes P :: "string \<Rightarrow> metric \<Rightarrow> bool"
  defines "P \<equiv> \<lambda>b m. \<exists>s. metric_name m = b @ s \<and> sublist ''.agg.'' s"
  shows "\<forall>m \<in> set (processAggregation base agg v q ts). P base m"
    and "\<forall>m \<in> set (processBuckets base agg i bs q ts). P base m"
    and "\<forall>m \<in> set (processNested nbase members q ts). P nbase m"
proof (induction base agg v q ts and base agg i bs q ts and nbase members q ts
    rule: processAggregation_processBuckets_processNested.induct)
  case (1 baseMetricName aggName aggMap queryConfig timestamp)
  have buckets: "\<forall>m \<in> set (case map_of aggMap ''buckets'' of
        Some (JArr buckets) \<Rightarrow>
          processBuckets baseMetricName aggName 0 buckets queryConfig timestamp
      | _ \<Rightarrow> []). P baseMetricName m"
  proof (cases "map_of aggMap ''buckets''")
    case None
    then show ?thesis by simp
  next
    case (Some b)
    show ?thesis
    proof (cases b)
      case (JArr bs)
      with Some 1 show ?thesis by simp
    qed (simp_all add: Some)
  qed
  have gauge: "P baseMetricName (recordGaugeMetric (baseMetricName @ ''.agg.'' @ r) de u x
      queryConfig timestamp)" for r de u x
    unfolding P_def by (auto simp: recordGaugeMetric_def)
  have "\<forall>m \<in> set (case map_of aggMap ''value'' of
        Some (JNum val) \<Rightarrow>
          [recordGaugeMetric (baseMetricName @ ''.agg.'' @ aggName)
             (''Aggregation result for '' @ aggName) '''' val queryConfig timestamp]
      | _ \<Rightarrow> []). P baseMetricName m"
    using gauge [of aggName] by (auto split: option.splits json.splits)
  moreover have "\<forall>m \<in> set (case map_of aggMap ''doc_count'' of
        Some (JNum docCount) \<Rightarrow>
          [recordGaugeMetric (baseMetricName @ ''.agg.'' @ aggName @ ''.doc_count'')
             (''Document count for '' @ aggName) ''documents'' docCount queryConfig timestamp]
      | _ \<Rightarrow> []). P baseMetricName m"
    using gauge [of "aggName @ ''.doc_count''"] by (auto split: option.splits json.splits)
  ultimately show ?case using buckets
    by (simp only: processAggregation.simps set_append) blast
next
  case (4 baseMetricName aggName i bucketMap rest queryConfig timestamp)
  have "P baseMetricName
      (bucket_doc_count_metric baseMetricName aggName key d queryConfig timestamp)" for key d
    unfolding P_def by (auto simp: bucket_doc_count_metric_def)
  then have doc: "\<forall>m \<in> set (case map_of bucketMap ''doc_count'' of
            Some (JNum docCount) \<Rightarrow>
              [bucket_doc_count_metric baseMetricName aggName (bucket_key i bucketMap) docCount
                 queryConfig timestamp]
          | _ \<Rightarrow> []). P baseMetricName m"
    by (auto split: option.splits json.splits)
  have up: "P baseMetricName m" if "P (baseMetricName @ ''.'' @ key) m" for key m
  proof -
    from that obtain s where "metric_name m = (baseMetricName @ ''.'' @ key) @ s"
      and "sublist ''.agg.'' s" unfolding P_def by blast
    then have "metric_name m = baseMetricName @ (''.'' @ key @ s)"
      and "sublist ''.agg.'' (''.'' @ key @ s)"
      using sublist_append_left [of "''.agg.''" s "''.'' @ key"] by simp_all
    then show ?thesis unfolding P_def by blast
  qed
  from 4(1) [OF refl] up
  have "\<forall>m \<in> set (processNested (baseMetricName @ ''.'' @ bucket_key i bucketMap) bucketMap
      queryConfig timestamp). P baseMetricName m"
    by blast
  with doc 4(2) show ?case by (auto simp: Let_def)
qed auto

lemma no_agg_in_summary:
  "\<not> sublist ''.agg.'' ''.count''" "\<not> sublist ''.agg.'' ''.took_ms''"
  "\<not> sublist ''.agg.'' ''.shards.total''" "\<not> sublist ''.agg.'' ''.shards.successful''"
  "\<not> sublist ''.agg.'' ''.shards.failed''"
  by (simp_all add: sublist_Cons_right)

lemma aggregation_names_apart:
  assumes "m \<in> set (processAggregations base aggs q ts)"
  shows "metric_name m \<notin> {base @ ''.count'', base @ ''.took_ms'', base @ ''.shards.total'',
           base @ ''.shards.successful'', base @ ''.shards.failed''}"
proof -
  from assms obtain agg v where "m \<in> set (processAggregation base agg v q ts)"
    by (auto simp: processAggregations_def)
  with walk_names(1) [of base agg v q ts]
  obtain s where s: "metric_name m = base @ s" "sublist ''.agg.'' s" by blast
  from s(2) no_agg_in_summary have "s \<noteq> ''.count''" "s \<noteq> ''.took_ms''" "s \<noteq> ''.shards.total''"
    "s \<noteq> ''.shards.successful''" "s \<noteq> ''.shards.failed''" by blast+
  with s(1) show ?thesis by simp
qed

lemma answering_world_200:
  "ExecuteQuery (answering_world 200 body resp) cfg h q = Inr resp"
  by (simp add: ExecuteQuery_def answering_world_def addTimeRangeFilter_def alloc_def Let_def)

text \<open>
  Claim C5, as stated, fails: the values are converted with \<^verbatim>\<open>float64(...)\<close>, which
  rounds an integer beyond \<open>2^53\<close>. A response with \<^verbatim>\<open>hits.total.value\<close> =
  9007199254740993 gives the count metric the value 9007199254740992.
\<close>

theorem summary_value_rounded_counterexample:
  "ExecuteQuery (answering_world 200 ''{}'' big_response) example_config example_store example_query
     = Inr big_response
   \<and> sint (Value (HTotal (Hits big_response))) = 9007199254740993
   \<and> map (\<lambda>m. (metric_name m, dp_value m))
        (take 1 (fst (executeAndRecordQuery (answering_world 200 ''{}'' big_response)
                        example_config example_store example_query 0)))
     = [(''opensearch.query.test.count'', 9007199254740992)]"
proof -
  have "bit_length 9007199254740993 = 54"
    by (simp add: bit_length.simps)
  then have "float64_of_int 9007199254740993 = 9007199254740992"
    by (simp add: float64_of_int_def Let_def)
  moreover have "sint (Value (HTotal (Hits big_response))) = 9007199254740993"
    by (simp add: big_response_def)
  ultimately show ?thesis
    by (simp add: answering_world_200 executeAndRecordQuery_def Let_def metric_name_of_def
          recordGaugeMetric_def example_query_def)
qed

text \<open>
  Claim C5, amended. When the query of a configuration executes successfully, the metrics
  recorded for it are the five summary metrics \<open>prefix.count\<close>, \<open>prefix.took_ms\<close>,
  \<open>prefix.shards.total\<close>, \<open>prefix.shards.successful\<close> and \<open>prefix.shards.failed\<close>, in this
  order, followed by the metrics of the aggregations, none of which bears one of the five
  names. The values of the five are the \<^verbatim>\<open>float64\<close> conversions of
  \<^verbatim>\<open>hits.total.value\<close>, \<^verbatim>\<open>took\<close> and the three shard counts; the conversion is exact
  for every integer of magnitude at most \<open>2^53\<close>.
\<close>

theorem five_summary_metrics:
  "(ExecuteQuery w cfg h q = Inr resp \<longrightarrow>
      executeAndRecordQuery w cfg h q ts =
        ([recordGaugeMetric (metric_name_of q @ ''.count'')
            ''Number of documents matching the query'' ''hits''
            (float64_of_int (sint (Value (HTotal (Hits resp))))) q ts,
          recordGaugeMetric (metric_name_of q @ ''.took_ms'')
            ''Query execution time in milliseconds'' ''ms''
            (float64_of_int (sint (Took resp))) q ts,
          recordGaugeMetric (metric_name_of q @ ''.shards.total'')
            ''Total number of shards queried'' ''shards''
            (float64_of_int (sint (Total (Shards resp)))) q ts,
          recordGaugeMetric (metric_name_of q @ ''.shards.successful'')
            ''Number of successful shards'' ''shards''
            (float64_of_int (sint (Successful (Shards resp)))) q ts,
          recordGaugeMetric (metric_name_of q @ ''.shards.failed'')
            ''Number of failed shards'' ''shards''
            (float64_of_int (sint (Failed (Shards resp)))) q ts]
         @ processAggregations (metric_name_of q) (Aggregations resp) q ts, None))
   \<and> (\<forall>m \<in> set (processAggregations (metric_name_of q) (Aggregations resp) q ts).
        metric_name m \<notin> {metric_name_of q @ ''.count'', metric_name_of q @ ''.took_ms'',
          metric_name_of q @ ''.shards.total'', metric_name_of q @ ''.shards.successful'',
          metric_name_of q @ ''.shards.failed''})
   \<and> (\<forall>n de u x. metric_name (recordGaugeMetric n de u x q ts) = n
          \<and> dp_value (recordGaugeMetric n de u x q ts) = x)
   \<and> (\<forall>n. \<bar>n\<bar> \<le> 2 ^ 53 \<longrightarrow> float64_of_int n = of_int n)"
proof -
  have empty: "processAggregations b [] q ts = []" for b
    by (simp add: processAggregations_def)
  have "executeAndRecordQuery w cfg h q ts =
        ([recordGaugeMetric (metric_name_of q @ ''.count'')
            ''Number of documents matching the query'' ''hits''
            (float64_of_int (sint (Value (HTotal (Hits resp))))) q ts,
          recordGaugeMetric (metric_name_of q @ ''.took_ms'')
            ''Query execution time in milliseconds'' ''ms''
            (float64_of_int (sint (Took resp))) q ts,
          recordGaugeMetric (metric_name_of q @ ''.shards.total'')
            ''Total number of shards queried'' ''shards''
            (float64_of_int (sint (Total (Shards resp)))) q ts,
          recordGaugeMetric (metric_name_of q @ ''.shards.successful'')
            ''Number of successful shards'' ''shards''
            (float64_of_int (sint (Successful (Shards resp)))) q ts,
          recordGaugeMetric (metric_name_of q @ ''.shards.failed'')
            ''Number of failed shards'' ''shards''
            (float64_of_int (sint (Failed (Shards resp)))) q ts]
         @ processAggregations (metric_name_of q) (Aggregations resp) q ts, None)"
    if "ExecuteQuery w cfg h q = Inr resp"
    by (cases "Aggregations resp") (simp_all add: executeAndRecordQuery_def that Let_def empty)
  moreover have "metric_name (recordGaugeMetric n de u x q ts) = n
      \<and> dp_value (recordGaugeMetric n de u x q ts) = x" for n de u x
    by (simp add: recordGaugeMetric_def)
  ultimately show ?thesis
    using aggregation_names_apart [of _ "metric_name_of q" "Aggregations resp" q ts]
      float64_of_int_exact
    by blast
qed

theorem five_summary_metrics_witness:
  "map (\<lambda>m. (metric_name m, dp_value m))
     (fst (executeAndRecordQuery (answering_world 200 ''{}'' example_response)
             example_config example_store example_query 0)) =
     [(''opensearch.query.test.count'', 42), (''opensearch.query.test.took_ms'', 5),
      (''opensearch.query.test.shards.total'', 5), (''opensearch.query.test.shards.successful'', 5),
      (''opensearch.query.test.shards.failed'', 0),
      (''opensearch.query.test.agg.levels.bucket.doc_count'', 10),
      (''opensearch.query.test.ERROR.agg.avg_latency'', 120.5)]"
proof -
  note th = five_summary_metrics [of "answering_world 200 ''{}'' example_response" example_config
      example_store example_query example_response 0]
  have ok: "ExecuteQuery (answering_world 200 ''{}'' example_response) example_config example_store
      example_query = Inr example_response"
    by (rule answering_world_200)
  from th have exact: "\<bar>n\<bar> \<le> 2 ^ 53 \<longrightarrow> float64_of_int n = of_int n" for n
    by blast
  have vals: "float64_of_int 42 = 42" "float64_of_int 5 = 5" "float64_of_int 0 = 0"
    using exact [of 42] exact [of 5] exact [of 0] by simp_all
  have fields: "sint (Value (HTotal (Hits example_response))) = 42" "sint (Took example_response) = 5"
    "sint (Total (Shards example_response)) = 5" "sint (Successful (Shards example_response)) = 5"
    "sint (Failed (Shards example_response)) = 0"
    "Aggregations example_response = levels_aggregations"
    by (simp_all add: example_response_def)
  have name: "metric_name_of example_query = ''opensearch.query.test''"
    by (simp add: metric_name_of_def example_query_def)
  from th ok have "fst (executeAndRecordQuery (answering_world 200 ''{}'' example_response)
             example_config example_store example_query 0) =
        [recordGaugeMetric (metric_name_of example_query @ ''.count'')
            ''Number of documents matching the query'' ''hits''
            (float64_of_int (sint (Value (HTotal (Hits example_response))))) example_query 0,
          recordGaugeMetric (metric_name_of example_query @ ''.took_ms'')
            ''Query execution time in milliseconds'' ''ms''
            (float64_of_int (sint (Took example_response))) example_query 0,
          recordGaugeMetric (metric_name_of example_query @ ''.shards.total'')
            ''Total number of shards queried'' ''shards''
            (float64_of_int (sint (Total (Shards example_response)))) example_query 0,
          recordGaugeMetric (metric_name_of example_query @ ''.shards.successful'')
            ''Number of successful shards'' ''shards''
            (float64_of_int (sint (Successful (Shards example_response)))) example_query 0,
          recordGaugeMetric (metric_name_of example_query @ ''.shards.failed'')
            ''Number of failed shards'' ''shards''
            (float64_of_int (sint (Failed (Shards example_response)))) example_query 0]
         @ processAggregations (metric_name_of example_query) (Aggregations example_response)
             example_query 0"
    by simp
  then show ?thesis
    by (simp add: fields vals name levels_example)
       (simp add: recordGaugeMetric_def bucket_doc_count_metric_def)
qed

section \<open>Properties of \<^verbatim>\<open>ExecuteQuery\<close>\<close>

text \<open>The request that \<^verbatim>\<open>ExecuteQuery\<close> marshals and the steps after it, one at a time.\<close>

lemma ExecuteQuery_marshal_failed:
  assumes "json_Marshal w (snd (addTimeRangeFilter w cfg h (Query q)))
             \<lparr>sr_Query = fst (addTimeRangeFilter w cfg h (Query q)), sr_Size = 10000,
              sr_Aggs = GNil\<rparr> = Inl e"
  shows "ExecuteQuery w cfg h q = Inl (''failed to marshal query: '' @ e)"
  using assms by (simp add: ExecuteQuery_def Let_def case_prod_beta)

lemma ExecuteQuery_request_failed:
  assumes "json_Marshal w (snd (addTimeRangeFilter w cfg h (Query q)))
             \<lparr>sr_Query = fst (addTimeRangeFilter w cfg h (Query q)), sr_Size = 10000,
              sr_Aggs = GNil\<rparr> = Inr reqBody"
    and "http_NewRequest w ''POST'' (GetEndpoint cfg @ ''/'' @ IndexPattern cfg @ ''/_search'')
           reqBody = Some e"
  shows "ExecuteQuery w cfg h q = Inl (''failed to create request: '' @ e)"
  using assms by (simp add: ExecuteQuery_def Let_def case_prod_beta)

lemma ExecuteQuery_sent:
  assumes "json_Marshal w (snd (addTimeRangeFilter w cfg h (Query q)))
             \<lparr>sr_Query = fst (addTimeRangeFilter w cfg h (Query q)), sr_Size = 10000,
              sr_Aggs = GNil\<rparr> = Inr reqBody"
    and "http_NewRequest w ''POST'' (GetEndpoint cfg @ ''/'' @ IndexPattern cfg @ ''/_search'')
           reqBody = None"
  shows "ExecuteQuery w cfg h q =
     (case http_Do w \<lparr>req_method = ''POST'',
              req_url = GetEndpoint cfg @ ''/'' @ IndexPattern cfg @ ''/_search'',
              req_body = reqBody, req_content_type = ''application/json'',
              req_basic_auth = (if UsesBasicAuth cfg then Some (Username cfg, Password cfg)
                                else None)\<rparr> of
        Inl err \<Rightarrow> Inl (''failed to execute request: '' @ err)
      | Inr resp \<Rightarrow>
          (case ReadAll_Body resp of
             Inl err \<Rightarrow> Inl (''failed to read response: '' @ err)
           | Inr body \<Rightarrow>
              (if StatusCode resp \<noteq> 200
               then Inl (''unexpected status code '' @ fmt_d (StatusCode resp) @ '': '' @ body)
               else (case json_Unmarshal w body of
                       Inl err \<Rightarrow> Inl (''failed to unmarshal response: '' @ err)
                     | Inr searchResp \<Rightarrow> Inr searchResp))))"
  using assms by (simp add: ExecuteQuery_def Let_def case_prod_beta)

lemma other_errors_not_status:
  "\<not> is_status_error (''failed to marshal query: '' @ e)"
  "\<not> is_status_error (''failed to create request: '' @ e)"
  "\<not> is_status_error (''failed to execute request: '' @ e)"
  "\<not> is_status_error (''failed to read response: '' @ e)"
  "\<not> is_status_error (''failed to unmarshal response: '' @ e)"
  "is_status_error (''unexpected status code '' @ e)"
  by (simp_all add: is_status_error_def)

lemma status_error_origin:
  assumes "ExecuteQuery w cfg h q = Inl err" and "is_status_error err"
  shows "\<exists>req resp body. http_Do w req = Inr resp \<and> ReadAll_Body resp = Inr body
           \<and> StatusCode resp \<noteq> 200
           \<and> err = ''unexpected status code '' @ fmt_d (StatusCode resp) @ '': '' @ body"
proof (cases "json_Marshal w (snd (addTimeRangeFilter w cfg h (Query q)))
             \<lparr>sr_Query = fst (addTimeRangeFilter w cfg h (Query q)), sr_Size = 10000,
              sr_Aggs = GNil\<rparr>")
  case (Inl e)
  from ExecuteQuery_marshal_failed [OF Inl] assms other_errors_not_status(1) [of e]
  show ?thesis by simp
next
  case (Inr reqBody)
  show ?thesis
  proof (cases "http_NewRequest w ''POST''
      (GetEndpoint cfg @ ''/'' @ IndexPattern cfg @ ''/_search'') reqBody")
    case (Some e)
    from ExecuteQuery_request_failed [OF Inr Some] assms other_errors_not_status(2) [of e]
    show ?thesis by simp
  next
    case None
    let ?req = "\<lparr>req_method = ''POST'',
              req_url = GetEndpoint cfg @ ''/'' @ IndexPattern cfg @ ''/_search'',
              req_body = reqBody, req_content_type = ''application/json'',
              req_basic_auth = (if UsesBasicAuth cfg then Some (Username cfg, Password cfg)
                                else None)\<rparr>"
    note sent = ExecuteQuery_sent [OF Inr None]
    show ?thesis
    proof (cases "http_Do w ?req")
      case (Inl e)
      with sent assms other_errors_not_status(3) [of e] show ?thesis by simp
    next
      case do: (Inr resp)
      show ?thesis
      proof (cases "ReadAll_Body resp")
        case (Inl e)
        with sent do assms other_errors_not_status(4) [of e] show ?thesis by simp
      next
        case body: (Inr body)
        show ?thesis
        proof (cases "StatusCode resp = 200")
          case True
          with sent do body assms other_errors_not_status(5) show ?thesis
            by (cases "json_Unmarshal w body") simp_all
        next
          case False
          with sent do body assms(1)
          have "err = ''unexpected status code '' @ fmt_d (StatusCode resp) @ '': '' @ body"
            by simp
          with do body False show ?thesis by blast
        qed
      qed
    qed
  qed
qed

text \<open>
  Claim C3, as stated, fails: the status check compares with 200, so a response with
  another status of the 2xx range, here 201, is an error of the status check.
\<close>

theorem status_201_counterexample:
  "(200 :: int) \<le> 201 \<and> (201 :: int) < 300
   \<and> ExecuteQuery (answering_world 201 ''{}'' example_response) example_config example_store
        example_query = Inl ''unexpected status code 201: {}''
   \<and> is_status_error ''unexpected status code 201: {}''"
proof -
  have "digits 201 = ''201''"
    by (simp add: digits.simps digit_char_def)
  then show ?thesis
    by (simp add: ExecuteQuery_def answering_world_def addTimeRangeFilter_def alloc_def Let_def
          fmt_d_def is_status_error_def)
qed

text \<open>
  Claim C3, amended. An error of the status check comes only from a response whose status
  is not 200, and its message is \<^verbatim>\<open>unexpected status code\<close> followed by the status in
  decimal, a colon and the body as read. In a world where the request is marshalled,
  created and answered by a response whose body is read: if the status is not 200,
  \<^verbatim>\<open>ExecuteQuery\<close> returns that error, whose message contains the status code and the
  body; if the status is 200, it returns what decoding the body gives, which is never an
  error of the status check.
\<close>

theorem status_error_iff_not_200:
  "(\<forall>err. ExecuteQuery w cfg h q = Inl err \<and> is_status_error err \<longrightarrow>
      (\<exists>req resp body. http_Do w req = Inr resp \<and> ReadAll_Body resp = Inr body
         \<and> StatusCode resp \<noteq> 200
         \<and> err = ''unexpected status code '' @ fmt_d (StatusCode resp) @ '': '' @ body))
   \<and> ((\<forall>hh r. \<exists>b. json_Marshal w hh r = Inr b) \<and> (\<forall>m u b. http_NewRequest w m u b = None)
        \<and> (\<forall>req. http_Do w req = Inr resp) \<and> ReadAll_Body resp = Inr body \<longrightarrow>
       (StatusCode resp \<noteq> 200 \<longrightarrow>
          ExecuteQuery w cfg h q =
            Inl (''unexpected status code '' @ fmt_d (StatusCode resp) @ '': '' @ body)
          \<and> is_status_error (''unexpected status code '' @ fmt_d (StatusCode resp) @ '': '' @ body)
          \<and> sublist (fmt_d (StatusCode resp))
               (''unexpected status code '' @ fmt_d (StatusCode resp) @ '': '' @ body)
          \<and> sublist body (''unexpected status code '' @ fmt_d (StatusCode resp) @ '': '' @ body))
       \<and> (StatusCode resp = 200 \<longrightarrow>
          ExecuteQuery w cfg h q =
            (case json_Unmarshal w body of
               Inl e \<Rightarrow> Inl (''failed to unmarshal response: '' @ e)
             | Inr searchResp \<Rightarrow> Inr searchResp)
          \<and> (\<forall>err. ExecuteQuery w cfg h q = Inl err \<longrightarrow> \<not> is_status_error err)))"
proof -
  have origin: "\<exists>req resp body. http_Do w req = Inr resp \<and> ReadAll_Body resp = Inr body
         \<and> StatusCode resp \<noteq> 200
         \<and> err = ''unexpected status code '' @ fmt_d (StatusCode resp) @ '': '' @ body"
    if "ExecuteQuery w cfg h q = Inl err" "is_status_error err" for err
    using that by (rule status_error_origin)
  have contains: "sublist c (''unexpected status code '' @ c @ '': '' @ b)"
    "sublist b (''unexpected status code '' @ c @ '': '' @ b)" for c b :: string
  proof -
    show "sublist c (''unexpected status code '' @ c @ '': '' @ b)"
      by (rule sublist_appendI)
    have "sublist b ((''unexpected status code '' @ c @ '': '') @ b)"
      by (rule sublist_append_leftI)
    then show "sublist b (''unexpected status code '' @ c @ '': '' @ b)" by simp
  qed
  have answered: "ExecuteQuery w cfg h q =
       (if StatusCode resp \<noteq> 200
        then Inl (''unexpected status code '' @ fmt_d (StatusCode resp) @ '': '' @ body)
        else (case json_Unmarshal w body of
                Inl e \<Rightarrow> Inl (''failed to unmarshal response: '' @ e)
              | Inr searchResp \<Rightarrow> Inr searchResp))"
    if m: "\<forall>hh r. \<exists>b. json_Marshal w hh r = Inr b" and n: "\<forall>m u b. http_NewRequest w m u b = None"
      and d: "\<forall>req. http_Do w req = Inr resp" and r: "ReadAll_Body resp = Inr body"
  proof -
    from m obtain reqBody where "json_Marshal w (snd (addTimeRangeFilter w cfg h (Query q)))
             \<lparr>sr_Query = fst (addTimeRangeFilter w cfg h (Query q)), sr_Size = 10000,
              sr_Aggs = GNil\<rparr> = Inr reqBody"
      by blast
    from ExecuteQuery_sent [OF this] n d r show ?thesis by simp
  qed
  have ok: "\<not> is_status_error err"
    if "\<forall>hh r. \<exists>b. json_Marshal w hh r = Inr b" "\<forall>m u b. http_NewRequest w m u b = None"
      "\<forall>req. http_Do w req = Inr resp" "ReadAll_Body resp = Inr body" "StatusCode resp = 200"
      "ExecuteQuery w cfg h q = Inl err" for err
  proof
    assume "is_status_error err"
    from origin [OF that(6) this] that(3,5) show False by auto
  qed
  have status: "is_status_error (''unexpected status code '' @ e)" for e
    by (rule other_errors_not_status)
  have first: "\<forall>err. ExecuteQuery w cfg h q = Inl err \<and> is_status_error err \<longrightarrow>
      (\<exists>req resp body. http_Do w req = Inr resp \<and> ReadAll_Body resp = Inr body
         \<and> StatusCode resp \<noteq> 200
         \<and> err = ''unexpected status code '' @ fmt_d (StatusCode resp) @ '': '' @ body)"
    using origin by blast
  have second: "(StatusCode resp \<noteq> 200 \<longrightarrow>
          ExecuteQuery w cfg h q =
            Inl (''unexpected status code '' @ fmt_d (StatusCode resp) @ '': '' @ body)
          \<and> is_status_error (''unexpected status code '' @ fmt_d (StatusCode resp) @ '': '' @ body)
          \<and> sublist (fmt_d (StatusCode resp))
               (''unexpected status code '' @ fmt_d (StatusCode resp) @ '': '' @ body)
          \<and> sublist body (''unexpected status code '' @ fmt_d (StatusCode resp) @ '': '' @ body))
       \<and> (StatusCode resp = 200 \<longrightarrow>
          ExecuteQuery w cfg h q =
            (case json_Unmarshal w body of
               Inl e \<Rightarrow> Inl (''failed to unmarshal response: '' @ e)
             | Inr searchResp \<Rightarrow> Inr searchResp)
          \<and> (\<forall>err. ExecuteQuery w cfg h q = Inl err \<longrightarrow> \<not> is_status_error err))"
    if W: "(\<forall>hh r. \<exists>b. json_Marshal w hh r = Inr b) \<and> (\<forall>m u b. http_NewRequest w m u b = None)
        \<and> (\<forall>req. http_Do w req = Inr resp) \<and> ReadAll_Body resp = Inr body"
  proof (cases "StatusCode resp = 200")
    case True
    from W have a: "ExecuteQuery w cfg h q =
       (if StatusCode resp \<noteq> 200
        then Inl (''unexpected status code '' @ fmt_d (StatusCode resp) @ '': '' @ body)
        else (case json_Unmarshal w body of
                Inl e \<Rightarrow> Inl (''failed to unmarshal response: '' @ e)
              | Inr searchResp \<Rightarrow> Inr searchResp))"
      by (intro answered) blast+
    from W True have "\<not> is_status_error err" if "ExecuteQuery w cfg h q = Inl err" for err
      using that by (intro ok [of err]) blast+
    with a True show ?thesis by simp
  next
    case False
    from W have a: "ExecuteQuery w cfg h q =
       (if StatusCode resp \<noteq> 200
        then Inl (''unexpected status code '' @ fmt_d (StatusCode resp) @ '': '' @ body)
        else (case json_Unmarshal w body of
                Inl e \<Rightarrow> Inl (''failed to unmarshal response: '' @ e)
              | Inr searchResp \<Rightarrow> Inr searchResp))"
      by (intro answered) blast+
    with False status contains show ?thesis by simp
  qed
  from first second show ?thesis by blast
qed

theorem status_error_iff_not_200_witness:
  "ExecuteQuery (answering_world 500 ''Internal server error'' example_response) example_config
       example_store example_query = Inl ''unexpected status code 500: Internal server error''
   \<and> sublist ''500'' ''unexpected status code 500: Internal server error''
   \<and> sublist ''Internal server error'' ''unexpected status code 500: Internal server error''
   \<and> ExecuteQuery (answering_world 200 ''{}'' example_response) example_config
       example_store example_query = Inr example_response"
proof -
  have W: "(\<forall>hh r. \<exists>b. json_Marshal (answering_world s b0 example_response) hh r = Inr b)
      \<and> (\<forall>m u b. http_NewRequest (answering_world s b0 example_response) m u b = None)
      \<and> (\<forall>req. http_Do (answering_world s b0 example_response) req
            = Inr \<lparr>StatusCode = s, ReadAll_Body = Inr b0\<rparr>)
      \<and> ReadAll_Body \<lparr>StatusCode = s, ReadAll_Body = Inr b0\<rparr> = Inr b0" for s b0
    by (simp add: answering_world_def)
  have d: "fmt_d 500 = ''500''"
    by (simp add: fmt_d_def digits.simps digit_char_def)
  from status_error_iff_not_200 [of "answering_world 500 ''Internal server error'' example_response"
      example_config example_store example_query
      "\<lparr>StatusCode = 500, ReadAll_Body = Inr ''Internal server error''\<rparr>"
      "''Internal server error''"] W [of 500 "''Internal server error''"]
  have "StatusCode \<lparr>StatusCode = 500, ReadAll_Body = Inr ''Internal server error''\<rparr> \<noteq> 200 \<longrightarrow>
      ExecuteQuery (answering_world 500 ''Internal server error'' example_response) example_config
        example_store example_query =
        Inl (''unexpected status code ''
              @ fmt_d (StatusCode \<lparr>StatusCode = 500, ReadAll_Body = Inr ''Internal server error''\<rparr>)
              @ '': '' @ ''Internal server error'')
      \<and> sublist (fmt_d (StatusCode \<lparr>StatusCode = 500, ReadAll_Body = Inr ''Internal server error''\<rparr>))
          (''unexpected status code ''
              @ fmt_d (StatusCode \<lparr>StatusCode = 500, ReadAll_Body = Inr ''Internal server error''\<rparr>)
              @ '': '' @ ''Internal server error'')
      \<and> sublist ''Internal server error''
          (''unexpected status code ''
              @ fmt_d (StatusCode \<lparr>StatusCode = 500, ReadAll_Body = Inr ''Internal server error''\<rparr>)
              @ '': '' @ ''Internal server error'')"
    by blast
  then have bad: "ExecuteQuery (answering_world 500 ''Internal server error'' example_response)
       example_config example_store example_query
         = Inl ''unexpected status code 500: Internal server error''
     \<and> sublist ''500'' ''unexpected status code 500: Internal server error''
     \<and> sublist ''Internal server error'' ''unexpected status code 500: Internal server error''"
    by (simp add: d)
  from status_error_iff_not_200 [of "answering_world 200 ''{}'' example_response"
      example_config example_store example_query
      "\<lparr>StatusCode = 200, ReadAll_Body = Inr ''{}''\<rparr>" "''{}''"] W [of 200 "''{}''"]
  have "StatusCode \<lparr>StatusCode = 200, ReadAll_Body = Inr ''{}''\<rparr> = 200 \<longrightarrow>
      ExecuteQuery (answering_world 200 ''{}'' example_response) example_config
        example_store example_query =
        (case json_Unmarshal (answering_world 200 ''{}'' example_response) ''{}'' of
           Inl e \<Rightarrow> Inl (''failed to unmarshal response: '' @ e)
         | Inr searchResp \<Rightarrow> Inr searchResp)"
    by blast
  then have good: "ExecuteQuery (answering_world 200 ''{}'' example_response) example_config
       example_store example_query = Inr example_response"
    by (simp add: answering_world_def)
  from bad good show ?thesis by simp
qed

section \<open>Properties of \<^verbatim>\<open>scrape\<close>\<close>

lemma executeAndRecordQuery_failed:
  "ExecuteQuery w cfg h q = Inl e \<Longrightarrow>
     executeAndRecordQuery w cfg h q ts = ([], Some (''query execution failed: '' @ e))"
  by (simp add: executeAndRecordQuery_def)

lemma executeAndRecordQuery_succeeded:
  "ExecuteQuery w cfg h q = Inr resp \<Longrightarrow> snd (executeAndRecordQuery w cfg h q ts) = None"
  by (simp add: executeAndRecordQuery_def Let_def)

lemma scrape_queries_enumerate:
  "scrape_queries ws cfg h now i qs =
     (concat (map (\<lambda>(j, q). fst (executeAndRecordQuery (ws j) cfg h q now)) (enumerate i qs)),
      concat (map (\<lambda>(j, q). case snd (executeAndRecordQuery (ws j) cfg h q now) of
                      Some e \<Rightarrow> [\<lparr>log_message = ''Failed to execute query'',
                                   log_query_name = Name q, log_error = e\<rparr>]
                    | None \<Rightarrow> []) (enumerate i qs)))"
  by (induction qs arbitrary: i) (simp_all add: case_prod_beta)

lemma recorded_cases:
  "fst (executeAndRecordQuery w cfg h q now) =
     (case ExecuteQuery w cfg h q of
        Inl err \<Rightarrow> []
      | Inr resp \<Rightarrow> fst (executeAndRecordQuery w cfg h q now))"
  by (cases "ExecuteQuery w cfg h q") (simp_all add: executeAndRecordQuery_failed)

lemma logged_cases:
  "(case snd (executeAndRecordQuery w cfg h q now) of
      Some e \<Rightarrow> [\<lparr>log_message = ''Failed to execute query'', log_query_name = Name q,
                   log_error = e\<rparr>]
    | None \<Rightarrow> []) =
   (case ExecuteQuery w cfg h q of
      Inl err \<Rightarrow> [\<lparr>log_message = ''Failed to execute query'', log_query_name = Name q,
                    log_error = ''query execution failed: '' @ err\<rparr>]
    | Inr resp \<Rightarrow> [])"
  by (cases "ExecuteQuery w cfg h q")
     (simp_all add: executeAndRecordQuery_failed executeAndRecordQuery_succeeded)

text \<open>
  Claim C8. \<^verbatim>\<open>scrape\<close> never returns an error. Its batch is the concatenation, in the
  order of the configuration, of what each query records, where a query whose execution
  fails records nothing; so the metrics of every query are in the batch whatever happens
  to the other queries. The log has one entry at level Error for each failed query, in the
  same order, with the name of the query and the error.
\<close>

theorem scrape_isolates_failures:
  "returned_error (scrape ws cfg h now) = None
   \<and> batch (scrape ws cfg h now) =
       concat (map (\<lambda>(i, q). case ExecuteQuery (ws i) cfg h q of
                       Inl err \<Rightarrow> []
                     | Inr resp \<Rightarrow> fst (executeAndRecordQuery (ws i) cfg h q now))
                 (enumerate 0 (Queries cfg)))
   \<and> error_log (scrape ws cfg h now) =
       concat (map (\<lambda>(i, q). case ExecuteQuery (ws i) cfg h q of
                       Inl err \<Rightarrow> [\<lparr>log_message = ''Failed to execute query'',
                                     log_query_name = Name q,
                                     log_error = ''query execution failed: '' @ err\<rparr>]
                     | Inr resp \<Rightarrow> [])
                 (enumerate 0 (Queries cfg)))
   \<and> (\<forall>i < length (Queries cfg).
        set (fst (executeAndRecordQuery (ws i) cfg h (Queries cfg ! i) now))
          \<subseteq> set (batch (scrape ws cfg h now))
        \<and> (\<forall>err. ExecuteQuery (ws i) cfg h (Queries cfg ! i) = Inl err \<longrightarrow>
              executeAndRecordQuery (ws i) cfg h (Queries cfg ! i) now
                = ([], Some (''query execution failed: '' @ err))))"
proof -
  have b: "batch (scrape ws cfg h now) =
      concat (map (\<lambda>(j, q). fst (executeAndRecordQuery (ws j) cfg h q now))
        (enumerate 0 (Queries cfg)))"
    and l: "error_log (scrape ws cfg h now) =
      concat (map (\<lambda>(j, q). case snd (executeAndRecordQuery (ws j) cfg h q now) of
                      Some e \<Rightarrow> [\<lparr>log_message = ''Failed to execute query'',
                                   log_query_name = Name q, log_error = e\<rparr>]
                    | None \<Rightarrow> []) (enumerate 0 (Queries cfg)))"
    and e: "returned_error (scrape ws cfg h now) = None"
    by (simp_all add: scrape_def scrape_queries_enumerate)
  have b': "batch (scrape ws cfg h now) =
       concat (map (\<lambda>(i, q). case ExecuteQuery (ws i) cfg h q of
                       Inl err \<Rightarrow> []
                     | Inr resp \<Rightarrow> fst (executeAndRecordQuery (ws i) cfg h q now))
                 (enumerate 0 (Queries cfg)))"
    unfolding b by (simp only: recorded_cases [symmetric])
  have l': "error_log (scrape ws cfg h now) =
       concat (map (\<lambda>(i, q). case ExecuteQuery (ws i) cfg h q of
                       Inl err \<Rightarrow> [\<lparr>log_message = ''Failed to execute query'',
                                     log_query_name = Name q,
                                     log_error = ''query execution failed: '' @ err\<rparr>]
                     | Inr resp \<Rightarrow> [])
                 (enumerate 0 (Queries cfg)))"
    unfolding l by (simp only: logged_cases)
  have sub: "set (fst (executeAndRecordQuery (ws i) cfg h (Queries cfg ! i) now))
          \<subseteq> set (batch (scrape ws cfg h now))" if "i < length (Queries cfg)" for i
  proof -
    from that have "(i, Queries cfg ! i) \<in> set (enumerate 0 (Queries cfg))"
      by (simp add: in_set_enumerate_eq)
    then show ?thesis unfolding b by (auto intro!: bexI [of _ "(i, Queries cfg ! i)"])
  qed
  from e b' l' sub executeAndRecordQuery_failed show ?thesis by blast
qed

theorem scrape_isolates_failures_witness:
  "map metric_name (batch (scrape second_fails three_queries example_store 0)) =
     [''opensearch.query.first.count'', ''opensearch.query.first.took_ms'',
      ''opensearch.query.first.shards.total'', ''opensearch.query.first.shards.successful'',
      ''opensearch.query.first.shards.failed'',
      ''opensearch.query.third.count'', ''opensearch.query.third.took_ms'',
      ''opensearch.query.third.shards.total'', ''opensearch.query.third.shards.successful'',
      ''opensearch.query.third.shards.failed'']
   \<and> error_log (scrape second_fails three_queries example_store 0) =
     [\<lparr>log_message = ''Failed to execute query'', log_query_name = ''second'',
       log_error = ''query execution failed: unexpected status code 500: Internal server error''\<rparr>]
   \<and> returned_error (scrape second_fails three_queries example_store 0) = None"
proof -
  note th = scrape_isolates_failures [of second_fails three_queries example_store 0]
  have q: "enumerate 0 (Queries three_queries) =
      [(0, example_query\<lparr>Name := ''first''\<rparr>), (1, example_query\<lparr>Name := ''second''\<rparr>),
       (2, example_query\<lparr>Name := ''third''\<rparr>)]"
    by (simp add: three_queries_def)
  have ok: "ExecuteQuery (second_fails 0) three_queries example_store q = Inr big_response"
      "ExecuteQuery (second_fails 2) three_queries example_store q = Inr big_response" for q
    by (simp_all add: second_fails_def answering_world_200)
  have "digits 500 = ''500''"
    by (simp add: digits.simps digit_char_def)
  then have bad: "ExecuteQuery (second_fails (Suc 0)) three_queries example_store q =
      Inl ''unexpected status code 500: Internal server error''" for q
    by (simp add: second_fails_def ExecuteQuery_def answering_world_def addTimeRangeFilter_def
          alloc_def Let_def fmt_d_def)
  have mn: "metric_name_of (example_query\<lparr>Name := n\<rparr>) = ''opensearch.query.'' @ n" for n
    by (simp add: metric_name_of_def example_query_def)
  have names: "map metric_name (fst (executeAndRecordQuery (second_fails i) three_queries
        example_store (example_query\<lparr>Name := n\<rparr>) 0)) =
      [''opensearch.query.'' @ n @ ''.count'', ''opensearch.query.'' @ n @ ''.took_ms'',
       ''opensearch.query.'' @ n @ ''.shards.total'',
       ''opensearch.query.'' @ n @ ''.shards.successful'',
       ''opensearch.query.'' @ n @ ''.shards.failed'']"
    if "ExecuteQuery (second_fails i) three_queries example_store (example_query\<lparr>Name := n\<rparr>)
          = Inr big_response" for i n
    by (simp add: executeAndRecordQuery_def that Let_def mn recordGaugeMetric_def
          big_response_def)
  from th have "batch (scrape second_fails three_queries example_store 0) =
       concat (map (\<lambda>(i, q). case ExecuteQuery (second_fails i) three_queries example_store q of
                       Inl err \<Rightarrow> []
                     | Inr resp \<Rightarrow> fst (executeAndRecordQuery (second_fails i) three_queries
                                      example_store q 0))
                 (enumerate 0 (Queries three_queries)))"
    by blast
  then have one: "map metric_name (batch (scrape second_fails three_queries example_store 0)) =
     [''opensearch.query.first.count'', ''opensearch.query.first.took_ms'',
      ''opensearch.query.first.shards.total'', ''opensearch.query.first.shards.successful'',
      ''opensearch.query.first.shards.failed'',
      ''opensearch.query.third.count'', ''opensearch.query.third.took_ms'',
      ''opensearch.query.third.shards.total'', ''opensearch.query.third.shards.successful'',
      ''opensearch.query.third.shards.failed'']"
    by (simp add: q ok bad names)
  from th have "error_log (scrape second_fails three_queries example_store 0) =
       concat (map (\<lambda>(i, q). case ExecuteQuery (second_fails i) three_queries example_store q of
                       Inl err \<Rightarrow> [\<lparr>log_message = ''Failed to execute query'',
                                     log_query_name = Name q,
                                     log_error = ''query execution failed: '' @ err\<rparr>]
                     | Inr resp \<Rightarrow> [])
                 (enumerate 0 (Queries three_queries)))"
    by blast
  then have two: "error_log (scrape second_fails three_queries example_store 0) =
     [\<lparr>log_message = ''Failed to execute query'', log_query_name = ''second'',
       log_error = ''query execution failed: unexpected status code 500: Internal server error''\<rparr>]"
    by (simp add: q ok bad example_query_def)
  from th have "returned_error (scrape second_fails three_queries example_store 0) = None"
    by blast
  with one two show ?thesis by simp
qed

end
